theory Spec2Isabelle
  imports Complex_Main "HOL-Library.Multiset" "HOL-Library.Product_Lexorder"
begin

section \<open>Numbers\<close>

text \<open>
  The analysis code works on numpy float64 arrays. A value that enters a function from
  outside is a \<open>float64\<close>: a finite number, an infinity or NaN. Arithmetic on the
  finite values is done on the reals in the sections on the source files; rounding and
  overflow are added in the section on binary64 arithmetic, for the two computations
  whose results depend on them.
\<close>

datatype float64 = Finite real | PosInf | NegInf | NaN

fun isfinite :: "float64 \<Rightarrow> bool" where
  "isfinite (Finite x) = True"
| "isfinite PosInf = False"
| "isfinite NegInf = False"
| "isfinite NaN = False"

text \<open>\<^verbatim>\<open>values[valid_mask]\<close> with \<^verbatim>\<open>valid_mask = np.isfinite(values)\<close>: the
  finite entries, in their order.\<close>

fun finite_values :: "float64 list \<Rightarrow> real list" where
  "finite_values [] = []"
| "finite_values (Finite x # vs) = x # finite_values vs"
| "finite_values (v # vs) = finite_values vs"

text \<open>
  \<^verbatim>\<open>np.median\<close> of a one-dimensional array of finite values: the middle element
  of the sorted array, or the mean of the two middle elements when the length is even.
  On an empty array numpy returns NaN, which a real cannot be: the value of the model
  there is unspecified and nothing is proved from it. The calls below stand behind an
  emptiness test, the source's own or one that yields NaN in its place, or take the
  pixels of an image that has been labelled.
\<close>

definition np_median :: "real list \<Rightarrow> real" where
  "np_median xs =
     (let s = sort xs; n = length s; h = n div 2
      in if n mod 2 = 1 then s ! h else (s ! (h - 1) + s ! h) / 2)"

definition np_mean :: "real list \<Rightarrow> real" where
  "np_mean xs = sum_list xs / real (length xs)"

text \<open>\<^verbatim>\<open>np.std\<close>: the population standard deviation (\<^verbatim>\<open>ddof = 0\<close>).\<close>

definition np_std :: "real list \<Rightarrow> real" where
  "np_std xs = sqrt (np_mean (map (\<lambda>x. (x - np_mean xs)\<^sup>2) xs))"

section \<open>statistics.py\<close>

record metric_stats =
  median :: real
  sigma :: real
  mad :: real
  band_1sigma :: "real \<times> real"
  band_2sigma :: "real \<times> real"
  min_value :: real
  max_value :: real

definition MAD_SCALE_FACTOR :: real where
  "MAD_SCALE_FACTOR = 14826 / 10000"

definition empty_result :: metric_stats where
  "empty_result =
     \<lparr>median = 0, sigma = 0, mad = 0, band_1sigma = (0, 0), band_2sigma = (0, 0),
      min_value = 0, max_value = 0\<rparr>"

definition median_absolute_deviation :: "real list \<Rightarrow> real" where
  "median_absolute_deviation vals =
     (if length vals = 0 then 0
      else let m = np_median vals
           in np_median (map (\<lambda>x. \<bar>x - m\<bar>) vals))"

text \<open>\<^verbatim>\<open>np.min\<close> and \<^verbatim>\<open>np.max\<close> of a non-empty array, as a left-to-right scan.\<close>

definition np_min :: "real list \<Rightarrow> real" where
  "np_min xs = fold min (tl xs) (hd xs)"

definition np_max :: "real list \<Rightarrow> real" where
  "np_max xs = fold max (tl xs) (hd xs)"

definition calculate_bands :: "float64 list \<Rightarrow> metric_stats" where
  "calculate_bands vals =
     (if length vals = 0 then empty_result
      else let valid = finite_values vals
           in if valid = [] then empty_result
              else let med = np_median valid;
                       md = median_absolute_deviation valid;
                       sg0 = md * MAD_SCALE_FACTOR;
                       sg = (if sg0 = 0 then 1 / 1000 else sg0)
                   in \<lparr>median = med, sigma = sg, mad = md,
                       band_1sigma = (med - sg, med + sg),
                       band_2sigma = (med - 2 * sg, med + 2 * sg),
                       min_value = np_min valid, max_value = np_max valid\<rparr>)"

section \<open>metrics.py\<close>

text \<open>
  A PSF result is a Python dict. The aggregations read \<^verbatim>\<open>fit_success\<close> and
  \<^verbatim>\<open>amplitude\<close> with \<^verbatim>\<open>dict.get\<close> and a default, so these two keys may be
  absent (\<open>None\<close>); the other keys are read with \<^verbatim>\<open>star[...]\<close>.
\<close>

record psf_result =
  psf_x :: real
  psf_y :: real
  fwhm_x :: real
  fwhm_y :: real
  amplitude :: "real option"
  fit_success :: "bool option"

text \<open>\<^verbatim>\<open>star.get('fit_success', True)\<close>\<close>

definition get_fit_success :: "psf_result \<Rightarrow> bool" where
  "get_fit_success star = (case fit_success star of None \<Rightarrow> True | Some b \<Rightarrow> b)"

text \<open>\<^verbatim>\<open>star.get('amplitude', 0)\<close>\<close>

definition get_amplitude :: "psf_result \<Rightarrow> real" where
  "get_amplitude star = (case amplitude star of None \<Rightarrow> 0 | Some a \<Rightarrow> a)"

type_synonym image = "real list list"

record frame_metrics =
  fwhm :: real
  fwhm_arcsec :: "real option"
  eccentricity :: real
  snr :: real
  star_count :: nat
  background :: float64

text \<open>The loop of \<^verbatim>\<open>calculate_fwhm\<close> that fills \<^verbatim>\<open>fwhm_values\<close>.\<close>

fun fwhm_values :: "psf_result list \<Rightarrow> real list" where
  "fwhm_values [] = []"
| "fwhm_values (star # rest) =
     (if get_fit_success star
      then sqrt (fwhm_x star * fwhm_y star) # fwhm_values rest
      else fwhm_values rest)"

definition calculate_fwhm :: "psf_result list \<Rightarrow> real" where
  "calculate_fwhm psf_results =
     (if psf_results = [] then 0
      else if fwhm_values psf_results = [] then 0
      else np_median (fwhm_values psf_results))"

text \<open>
  The body of the eccentricity loop for one star with major axis \<open>a > 0\<close>:
  \<^verbatim>\<open>ratio = b / a; ratio_sq = min(ratio ** 2, 1.0); np.sqrt(1 - ratio_sq)\<close>.
\<close>

definition ratio_sq :: "real \<Rightarrow> real \<Rightarrow> real" where
  "ratio_sq a b = (let ratio = b / a in min (ratio\<^sup>2) 1)"

definition star_eccentricity :: "real \<Rightarrow> real \<Rightarrow> real" where
  "star_eccentricity a b = sqrt (1 - ratio_sq a b)"

fun ecc_values :: "psf_result list \<Rightarrow> real list" where
  "ecc_values [] = []"
| "ecc_values (star # rest) =
     (if get_fit_success star
      then let a = max (fwhm_x star) (fwhm_y star);
               b = min (fwhm_x star) (fwhm_y star)
           in if a > 0 then star_eccentricity a b # ecc_values rest
              else ecc_values rest
      else ecc_values rest)"

definition calculate_eccentricity :: "psf_result list \<Rightarrow> real" where
  "calculate_eccentricity psf_results =
     (if psf_results = [] then 0
      else if ecc_values psf_results = [] then 0
      else np_median (ecc_values psf_results))"

text \<open>
  \<^verbatim>\<open>_sigma_clip\<close>: at most \<open>max_iters\<close> rounds. On an empty array median and
  standard deviation are NaN, the test \<^verbatim>\<open>std == 0\<close> is false, the mask is empty and
  the loop stops at the comparison of the lengths.
\<close>

fun sigma_clip_loop :: "nat \<Rightarrow> real \<Rightarrow> real list \<Rightarrow> real list" where
  "sigma_clip_loop 0 sg clipped = clipped"
| "sigma_clip_loop (Suc k) sg clipped =
     (if clipped = [] then clipped
      else let med = np_median clipped; std = np_std clipped
           in if std = 0 then clipped
              else let new_clipped = filter (\<lambda>x. \<bar>x - med\<bar> < sg * std) clipped
                   in if length new_clipped = length clipped then clipped
                      else sigma_clip_loop k sg new_clipped)"

definition sigma_clip :: "real list \<Rightarrow> real \<Rightarrow> nat \<Rightarrow> real list" where
  "sigma_clip data sg max_iters = sigma_clip_loop max_iters sg data"

definition estimate_noise :: "image \<Rightarrow> real" where
  "estimate_noise img =
     (let clipped = sigma_clip (concat img) 3 5
      in if length clipped = 0 then 1 else np_std clipped)"

text \<open>The loop of \<^verbatim>\<open>calculate_snr\<close> that fills \<^verbatim>\<open>amplitudes\<close>.\<close>

fun amplitudes :: "psf_result list \<Rightarrow> real list" where
  "amplitudes [] = []"
| "amplitudes (star # rest) =
     (if get_fit_success star \<and> get_amplitude star > 0
      then get_amplitude star # amplitudes rest
      else amplitudes rest)"

definition calculate_snr :: "image \<Rightarrow> psf_result list \<Rightarrow> real" where
  "calculate_snr img psf_results =
     (if psf_results = [] then 0
      else if amplitudes psf_results = [] then 0
      else let mean_signal = np_mean (amplitudes psf_results);
               background_noise = estimate_noise img
           in if background_noise \<le> 0 then 0
              else mean_signal / background_noise)"

definition calculate_star_count :: "psf_result list \<Rightarrow> nat" where
  "calculate_star_count psf_results =
     (if psf_results = [] then 0
      else sum_list (map (\<lambda>star. 1) (filter get_fit_success psf_results)))"

text \<open>\<^verbatim>\<open>np.median\<close> of an empty clipped array is NaN.\<close>

definition calculate_background :: "image \<Rightarrow> float64" where
  "calculate_background img =
     (let clipped = sigma_clip (concat img) 3 5
      in if clipped = [] then NaN else Finite (np_median clipped))"

text \<open>\<^verbatim>\<open>fwhm_pixels * image_scale if image_scale else None\<close>: a scale of 0 is falsy.\<close>

definition calculate_all :: "image \<Rightarrow> psf_result list \<Rightarrow> real option \<Rightarrow> frame_metrics" where
  "calculate_all img psf_results image_scale =
     (let fwhm_pixels = calculate_fwhm psf_results;
          arcsec = (case image_scale of
                      None \<Rightarrow> None
                    | Some s \<Rightarrow> if s = 0 then None else Some (fwhm_pixels * s))
      in \<lparr>fwhm = fwhm_pixels, fwhm_arcsec = arcsec,
          eccentricity = calculate_eccentricity psf_results,
          snr = calculate_snr img psf_results,
          star_count = calculate_star_count psf_results,
          background = calculate_background img\<rparr>)"

section \<open>Exceptions\<close>

text \<open>A raised exception: its class and its message (\<^verbatim>\<open>str(e)\<close>).\<close>

datatype exn_class = FileNotFoundError | ValueError | TypeError | IndexError | OSError

datatype exn = Raise exn_class string

fun exn_class_of :: "exn \<Rightarrow> exn_class" where
  "exn_class_of (Raise c msg) = c"

fun str_of_exn :: "exn \<Rightarrow> string" where
  "str_of_exn (Raise c msg) = msg"

section \<open>fits\_reader.py\<close>

text \<open>
  The value of a header card as astropy returns it: a string, an integer, a float, a
  logical, or astropy's \<^verbatim>\<open>Undefined\<close> for a card without a value. Floats of a header
  are finite. \<^verbatim>\<open>dict(hdu.header)\<close> is a map from keywords to values.
\<close>

datatype hval = HStr string | HInt int | HFloat real | HBool bool | HUndefined

type_synonym header = "string \<rightharpoonup> hval"

text \<open>Python's truth value of a header value, as in \<^verbatim>\<open>... and header[key]\<close>.\<close>

fun truthy :: "hval \<Rightarrow> bool" where
  "truthy (HStr s) = (s \<noteq> [])"
| "truthy (HInt i) = (i \<noteq> 0)"
| "truthy (HFloat x) = (x \<noteq> 0)"
| "truthy (HBool b) = b"
| "truthy HUndefined = True"

text \<open>
  \<^verbatim>\<open>float(v)\<close>. Python's parser of float literals is a parameter \<open>parse\<close>: the number
  a string denotes, or \<open>None\<close> where \<^verbatim>\<open>float\<close> raises ValueError. An integer of a
  header card has at most 70 digits, so its conversion does not overflow.
\<close>

fun py_float :: "(string \<Rightarrow> real option) \<Rightarrow> hval \<Rightarrow> exn + real" where
  "py_float parse (HStr s) =
     (case parse s of
        None \<Rightarrow> Inl (Raise ValueError (''could not convert string to float: '' @ s))
      | Some x \<Rightarrow> Inr x)"
| "py_float parse (HInt i) = Inr (real_of_int i)"
| "py_float parse (HFloat x) = Inr x"
| "py_float parse (HBool b) = Inr (if b then 1 else 0)"
| "py_float parse HUndefined =
     Inl (Raise TypeError ''float() argument must be a string or a real number'')"

text \<open>
  The loop over one list of keys:
  \<^verbatim>\<open>
  for key in keys:
      if key in header and header[key]:
          try:
              value = float(header[key]); break
          except (ValueError, TypeError):
              continue
  \<close>
  An exception of another class would leave the function.
\<close>

fun first_float :: "(string \<Rightarrow> real option) \<Rightarrow> header \<Rightarrow> string list \<Rightarrow> exn + real option" where
  "first_float parse hdr [] = Inr None"
| "first_float parse hdr (key # keys) =
     (case hdr key of
        None \<Rightarrow> first_float parse hdr keys
      | Some v \<Rightarrow>
          if truthy v then
            (case py_float parse v of
               Inr x \<Rightarrow> Inr (Some x)
             | Inl e \<Rightarrow>
                 if exn_class_of e = ValueError \<or> exn_class_of e = TypeError
                 then first_float parse hdr keys
                 else Inl e)
          else first_float parse hdr keys)"

definition pixel_size_keys :: "string list" where
  "pixel_size_keys = [''XPIXSZ'', ''PIXSIZE'', ''PIXSIZE1'', ''XPIXELSZ'', ''PIXSCALE'']"

definition focal_length_keys :: "string list" where
  "focal_length_keys = [''FOCALLEN'', ''FOCAL'', ''FOCALLENGTH'', ''FL'']"

definition aperture_keys :: "string list" where
  "aperture_keys = [''APTDIA'', ''DIAMETER'', ''APERTURE'', ''APTDIAMM'']"

record imaging_params =
  pixel_size_um :: "real option"
  focal_length_mm :: "real option"
  aperture_mm :: "real option"
  image_scale :: "real option"

text \<open>
  \<^verbatim>\<open>if pixel_size and focal_length and focal_length > 0\<close>: \<open>None\<close> and 0.0 are
  falsy.
\<close>

definition derive_image_scale :: "real option \<Rightarrow> real option \<Rightarrow> real option" where
  "derive_image_scale pixel_size focal_length =
     (case pixel_size of
        None \<Rightarrow> None
      | Some p \<Rightarrow>
          (case focal_length of
             None \<Rightarrow> None
           | Some f \<Rightarrow>
               if p \<noteq> 0 \<and> f \<noteq> 0 \<and> f > 0 then Some ((p / f) * (206265 / 1000))
               else None))"

text \<open>The body of \<^verbatim>\<open>get_imaging_params\<close> after the header has been read.\<close>

definition params_of_header :: "(string \<Rightarrow> real option) \<Rightarrow> header \<Rightarrow> exn + imaging_params" where
  "params_of_header parse hdr =
     (case first_float parse hdr pixel_size_keys of
        Inl e \<Rightarrow> Inl e
      | Inr pixel_size \<Rightarrow>
          (case first_float parse hdr focal_length_keys of
             Inl e \<Rightarrow> Inl e
           | Inr focal_length \<Rightarrow>
               (case first_float parse hdr aperture_keys of
                  Inl e \<Rightarrow> Inl e
                | Inr aperture \<Rightarrow>
                    Inr \<lparr>pixel_size_um = pixel_size, focal_length_mm = focal_length,
                         aperture_mm = aperture,
                         image_scale = derive_image_scale pixel_size focal_length\<rparr>)))"

subsection \<open>The parameters in the words of the specification\<close>

text \<open>
  ``The first present and parseable-as-float value'' of an ordered list of keys, and the
  image scale ``only when both inputs are present and focal\_length > 0''.
\<close>

fun spec_first_parseable :: "(string \<Rightarrow> real option) \<Rightarrow> header \<Rightarrow> string list \<Rightarrow> real option" where
  "spec_first_parseable parse hdr [] = None"
| "spec_first_parseable parse hdr (key # keys) =
     (case hdr key of
        None \<Rightarrow> spec_first_parseable parse hdr keys
      | Some v \<Rightarrow>
          (case py_float parse v of
             Inr x \<Rightarrow> Some x
           | Inl e \<Rightarrow> spec_first_parseable parse hdr keys))"

definition spec_image_scale :: "real option \<Rightarrow> real option \<Rightarrow> real option" where
  "spec_image_scale pixel_size focal_length =
     (case pixel_size of
        None \<Rightarrow> None
      | Some p \<Rightarrow>
          (case focal_length of
             None \<Rightarrow> None
           | Some f \<Rightarrow> if f > 0 then Some ((p / f) * (206265 / 1000)) else None))"

text \<open>
  The amended reading: a value counts only when it is truthy (not 0, not the empty
  string, not false) and \<^verbatim>\<open>float\<close> accepts it.
\<close>

definition usable :: "(string \<Rightarrow> real option) \<Rightarrow> header \<Rightarrow> string \<Rightarrow> bool" where
  "usable parse hdr key =
     (case hdr key of
        None \<Rightarrow> False
      | Some v \<Rightarrow> truthy v \<and> (case py_float parse v of Inr x \<Rightarrow> True | Inl e \<Rightarrow> False))"

definition first_usable :: "(string \<Rightarrow> real option) \<Rightarrow> header \<Rightarrow> string list \<Rightarrow> real option" where
  "first_usable parse hdr keys =
     (case filter (usable parse hdr) keys of
        [] \<Rightarrow> None
      | key # rest \<Rightarrow>
          (case hdr key of
             None \<Rightarrow> None
           | Some v \<Rightarrow> (case py_float parse v of Inr x \<Rightarrow> Some x | Inl e \<Rightarrow> None)))"

section \<open>The file system and the external libraries\<close>

text \<open>
  One header-data unit of an opened FITS file: its header cards in order and its data
  array, if any (one-dimensional data, a plane, or a cube of planes). Arrays of four
  and more dimensions are not part of the model.
\<close>

datatype hdu_data = NoData | Array1 "real list" | Array2 image | Array3 "image list"

record hdu =
  hdu_header :: "(string \<times> hval) list"
  hdu_data :: hdu_data

record star_detector =
  fwhm_estimate :: real
  threshold_sigma :: real
  max_stars :: int
  box_size :: nat

text \<open>\<^verbatim>\<open>StarDetector.__init__\<close>: an even box size is made odd.\<close>

definition StarDetector :: "real \<Rightarrow> real \<Rightarrow> int \<Rightarrow> nat \<Rightarrow> star_detector" where
  "StarDetector fe ts ms bs =
     \<lparr>fwhm_estimate = fe, threshold_sigma = ts, max_stars = ms,
      box_size = (if bs mod 2 = 1 then bs else bs + 1)\<rparr>"

text \<open>A row of the table of sources that \<^verbatim>\<open>DAOStarFinder\<close> returns.\<close>

record source_row =
  xcentroid :: real
  ycentroid :: real
  src_flux :: real
  src_peak :: real

text \<open>The six fitted parameters \<^verbatim>\<open>popt\<close> of \<^verbatim>\<open>curve_fit\<close>.\<close>

record gauss_params =
  popt_amplitude :: real
  popt_x0 :: real
  popt_y0 :: real
  popt_sigma_x :: real
  popt_sigma_y :: real
  popt_offset :: real

text \<open>
  What the code takes from outside the repository is a parameter of the model:
  \<^item> \<open>path_exists\<close>: \<^verbatim>\<open>Path.exists\<close>;
  \<^item> \<open>fits_open\<close>: \<^verbatim>\<open>astropy.io.fits.open\<close>, the list of HDUs of a file or the
    exception it raises (a missing file, an empty or corrupt file);
  \<^item> \<open>float_of_str\<close>: Python's parser of float literals;
  \<^item> \<open>photutils_available\<close>: whether \<^verbatim>\<open>import photutils\<close> succeeds;
  \<^item> \<open>daofind\<close>: background estimation and \<^verbatim>\<open>DAOStarFinder\<close> on an image, the rows
    of the table of sources (\<open>None\<close> when there is no source);
  \<^item> \<open>label_peaks\<close>: smoothing, maximum filter and \<^verbatim>\<open>scipy.ndimage.label\<close> on an
    image, the pixels (row, column) of each labelled region, regions in label order;
  \<^item> \<open>curve_fit\<close>: \<^verbatim>\<open>scipy.optimize.curve_fit\<close> on a cutout with the initial guess
    that \<^verbatim>\<open>_fit_gaussian_2d\<close> derives from the cutout and the expected FWHM.
\<close>

record world =
  path_exists :: "string \<Rightarrow> bool"
  fits_open :: "string \<Rightarrow> exn + hdu list"
  float_of_str :: "string \<Rightarrow> real option"
  photutils_available :: bool
  daofind :: "star_detector \<Rightarrow> image \<Rightarrow> exn + source_row list option"
  label_peaks :: "star_detector \<Rightarrow> image \<Rightarrow> exn + (nat \<times> nat) list list"
  curve_fit :: "real \<Rightarrow> image \<Rightarrow> exn + gauss_params"

subsection \<open>Reading files\<close>

text \<open>The loop of \<^verbatim>\<open>load_file\<close> over the HDUs: the first with data of two or three
  dimensions; of a cube, the first plane.\<close>

fun load_hdus :: "string \<Rightarrow> hdu list \<Rightarrow> exn + image" where
  "load_hdus filepath [] =
     Inl (Raise ValueError (''No image data found in FITS file: '' @ filepath))"
| "load_hdus filepath (h # rest) =
     (case hdu_data h of
        Array2 img \<Rightarrow> Inr img
      | Array3 planes \<Rightarrow>
          (case planes of
             [] \<Rightarrow> Inl (Raise IndexError ''index 0 is out of bounds for axis 0 with size 0'')
           | plane # others \<Rightarrow> Inr plane)
      | Array1 xs \<Rightarrow> load_hdus filepath rest
      | NoData \<Rightarrow> load_hdus filepath rest)"

definition load_file :: "world \<Rightarrow> string \<Rightarrow> exn + image" where
  "load_file w filepath =
     (if \<not> path_exists w filepath
      then Inl (Raise FileNotFoundError (''FITS file not found: '' @ filepath))
      else case fits_open w filepath of
             Inl e \<Rightarrow> Inl e
           | Inr hdul \<Rightarrow> load_hdus filepath hdul)"

text \<open>The loop of \<^verbatim>\<open>get_header\<close>: the first non-empty header, as a dict.\<close>

fun first_header :: "hdu list \<Rightarrow> header" where
  "first_header [] = Map.empty"
| "first_header (h # rest) =
     (if hdu_header h \<noteq> [] then map_of (hdu_header h) else first_header rest)"

definition get_header :: "world \<Rightarrow> string \<Rightarrow> exn + header" where
  "get_header w filepath =
     (case fits_open w filepath of
        Inl e \<Rightarrow> Inl e
      | Inr hdul \<Rightarrow> Inr (first_header hdul))"

definition get_imaging_params :: "world \<Rightarrow> string \<Rightarrow> exn + imaging_params" where
  "get_imaging_params w filepath =
     (case get_header w filepath of
        Inl e \<Rightarrow> Inl e
      | Inr hdr \<Rightarrow> params_of_header (float_of_str w) hdr)"

section \<open>star\_detector.py\<close>

text \<open>A detected star: the dict with the keys \<^verbatim>\<open>x\<close>, \<^verbatim>\<open>y\<close>, \<^verbatim>\<open>flux\<close>, \<^verbatim>\<open>peak\<close>.\<close>

record candidate =
  cand_x :: real
  cand_y :: real
  cand_flux :: real
  cand_peak :: real

text \<open>
  A Python slice \<^verbatim>\<open>xs[:k]\<close>: the first \<open>k\<close> elements, and for a negative \<open>k\<close> all
  but the last \<open>-k\<close>.
\<close>

definition py_take :: "int \<Rightarrow> 'a list \<Rightarrow> 'a list" where
  "py_take k xs = (if 0 \<le> k then take (nat k) xs else take (length xs - nat (- k)) xs)"

definition star_of_source :: "source_row \<Rightarrow> candidate" where
  "star_of_source row =
     \<lparr>cand_x = xcentroid row, cand_y = ycentroid row, cand_flux = src_flux row,
      cand_peak = src_peak row\<rparr>"

text \<open>
  \<^verbatim>\<open>_detect_with_photutils\<close>, from the table of sources on:
  \<^verbatim>\<open>sources.sort('flux', reverse=True)\<close>, which astropy computes as the reversed
  ascending order, then the cut to \<open>max_stars\<close> rows.
\<close>

definition detect_with_photutils :: "world \<Rightarrow> star_detector \<Rightarrow> image \<Rightarrow> exn + candidate list" where
  "detect_with_photutils w det img =
     (case daofind w det img of
        Inl e \<Rightarrow> Inl e
      | Inr None \<Rightarrow> Inr []
      | Inr (Some sources) \<Rightarrow>
          let sorted_sources = rev (sort_key src_flux sources);
              limited = (if int (length sorted_sources) > max_stars det
                         then py_take (max_stars det) sorted_sources
                         else sorted_sources)
          in Inr (map star_of_source limited))"

text \<open>
  The body of the loop of \<^verbatim>\<open>_detect_simple\<close> for one labelled region: the centroid
  of its pixels, the image value at the truncated centroid, the sum of its pixels above
  the background. The pixels of a region are pixels of the image.
\<close>

definition star_of_region :: "image \<Rightarrow> real \<Rightarrow> (nat \<times> nat) list \<Rightarrow> candidate" where
  "star_of_region img bkg region =
     (let y_center = np_mean (map (\<lambda>rc. real (fst rc)) region);
          x_center = np_mean (map (\<lambda>rc. real (snd rc)) region);
          peak_val = img ! nat \<lfloor>y_center\<rfloor> ! nat \<lfloor>x_center\<rfloor>
      in \<lparr>cand_x = x_center, cand_y = y_center,
          cand_flux = sum_list (map (\<lambda>rc. img ! fst rc ! snd rc - bkg) region),
          cand_peak = peak_val\<rparr>)"

fun region_stars :: "image \<Rightarrow> real \<Rightarrow> (nat \<times> nat) list list \<Rightarrow> candidate list" where
  "region_stars img bkg [] = []"
| "region_stars img bkg (region # rest) =
     (if length region > 0 then star_of_region img bkg region # region_stars img bkg rest
      else region_stars img bkg rest)"

text \<open>
  \<^verbatim>\<open>_detect_simple\<close>, from the labelled regions on. The loop
  \<^verbatim>\<open>for i in range(1, min(num_features + 1, self.max_stars + 1))\<close> visits the regions
  with the labels 1 to \<open>min(num_features, max_stars)\<close>;
  \<^verbatim>\<open>stars.sort(key=lambda s: s['flux'], reverse=True)\<close> is a stable sort by descending
  flux; the result is \<^verbatim>\<open>stars[:self.max_stars]\<close>. On an image without pixels
  \<^verbatim>\<open>np.percentile\<close> raises before anything is labelled, which is an outcome of
  \<open>label_peaks\<close>.
\<close>

definition detect_simple :: "world \<Rightarrow> star_detector \<Rightarrow> image \<Rightarrow> exn + candidate list" where
  "detect_simple w det img =
     (case label_peaks w det img of
        Inl e \<Rightarrow> Inl e
      | Inr regions \<Rightarrow>
          let bkg = np_median (concat img);
              num_features = length regions;
              visited = take (nat (min (int num_features + 1) (max_stars det + 1) - 1)) regions;
              stars = region_stars img bkg visited;
              sorted_stars = sort_key (\<lambda>s. - cand_flux s) stars
          in Inr (py_take (max_stars det) sorted_stars))"

definition detect_stars :: "world \<Rightarrow> star_detector \<Rightarrow> image \<Rightarrow> exn + candidate list" where
  "detect_stars w det img =
     (if photutils_available w then detect_with_photutils w det img
      else detect_simple w det img)"

subsection \<open>PSF fitting\<close>

text \<open>Python's \<^verbatim>\<open>round\<close> of a float: to the nearest integer, a tie to the even one.\<close>

definition py_round :: "real \<Rightarrow> int" where
  "py_round v =
     (let f = \<lfloor>v\<rfloor>; d = v - of_int f
      in if d < 1 / 2 then f else if d > 1 / 2 then f + 1
         else if even f then f else f + 1)"

definition shape0 :: "image \<Rightarrow> nat" where
  "shape0 img = length img"

definition shape1 :: "image \<Rightarrow> nat" where
  "shape1 img = (case img of [] \<Rightarrow> 0 | row # rows \<Rightarrow> length row)"

text \<open>The bounds check of \<^verbatim>\<open>fit_psf\<close>: true when the star is skipped.\<close>

definition window_exceeds :: "star_detector \<Rightarrow> image \<Rightarrow> candidate \<Rightarrow> bool" where
  "window_exceeds det img star =
     (let half_box = int (box_size det div 2);
          x = py_round (cand_x star); y = py_round (cand_y star)
      in x - half_box < 0 \<or> x + half_box \<ge> int (shape1 img) \<or>
         y - half_box < 0 \<or> y + half_box \<ge> int (shape0 img))"

text \<open>\<^verbatim>\<open>image[y - half_box:y + half_box + 1, x - half_box:x + half_box + 1]\<close>, for a
  window inside the image.\<close>

definition star_cutout :: "star_detector \<Rightarrow> image \<Rightarrow> candidate \<Rightarrow> image" where
  "star_cutout det img star =
     (let half_box = int (box_size det div 2);
          x = py_round (cand_x star); y = py_round (cand_y star);
          r0 = nat (y - half_box); r1 = nat (y + half_box + 1);
          c0 = nat (x - half_box); c1 = nat (x + half_box + 1)
      in map (\<lambda>row. take (c1 - c0) (drop c0 row)) (take (r1 - r0) (drop r0 img)))"

record gauss_fit =
  fit_fwhm_x :: real
  fit_fwhm_y :: real
  fit_amplitude :: real

text \<open>
  \<^verbatim>\<open>_fit_gaussian_2d\<close>: every exception of the solver gives \<open>None\<close>, and so does a
  fitted FWHM below 0.5 or above the size of the cutout.
\<close>

definition fit_gaussian_2d :: "world \<Rightarrow> star_detector \<Rightarrow> image \<Rightarrow> gauss_fit option" where
  "fit_gaussian_2d w det cutout =
     (let size = length cutout
      in case curve_fit w (fwhm_estimate det) cutout of
           Inl e \<Rightarrow> None
         | Inr popt \<Rightarrow>
             let fx = (2355 / 1000) * popt_sigma_x popt;
                 fy = (2355 / 1000) * popt_sigma_y popt
             in if fx < 1 / 2 \<or> fy < 1 / 2 \<or> fx > real size \<or> fy > real size then None
                else Some \<lparr>fit_fwhm_x = fx, fit_fwhm_y = fy,
                           fit_amplitude = popt_amplitude popt\<rparr>)"

fun fit_psf :: "world \<Rightarrow> star_detector \<Rightarrow> image \<Rightarrow> candidate list \<Rightarrow> psf_result list" where
  "fit_psf w det img [] = []"
| "fit_psf w det img (star # rest) =
     (if window_exceeds det img star then fit_psf w det img rest
      else case fit_gaussian_2d w det (star_cutout det img star) of
             Some fit_result \<Rightarrow>
               \<lparr>psf_x = cand_x star, psf_y = cand_y star,
                fwhm_x = fit_fwhm_x fit_result, fwhm_y = fit_fwhm_y fit_result,
                amplitude = Some (fit_amplitude fit_result), fit_success = Some True\<rparr>
               # fit_psf w det img rest
           | None \<Rightarrow>
               \<lparr>psf_x = cand_x star, psf_y = cand_y star,
                fwhm_x = fwhm_estimate det, fwhm_y = fwhm_estimate det,
                amplitude = Some (cand_peak star), fit_success = Some False\<rparr>
               # fit_psf w det img rest)"

subsection \<open>A failed fit in the words of the specification\<close>

text \<open>
  ``The Gaussian fit fails or yields fwhm\_x or fwhm\_y < 0.5 px or > box\_size px'', for
  the window of a star.
\<close>

definition spec_fit_rejected :: "world \<Rightarrow> star_detector \<Rightarrow> image \<Rightarrow> candidate \<Rightarrow> bool" where
  "spec_fit_rejected w det img star =
     (case curve_fit w (fwhm_estimate det) (star_cutout det img star) of
        Inl e \<Rightarrow> True
      | Inr popt \<Rightarrow>
          (2355 / 1000) * popt_sigma_x popt < 1 / 2 \<or>
          (2355 / 1000) * popt_sigma_y popt < 1 / 2 \<or>
          (2355 / 1000) * popt_sigma_x popt > real (box_size det) \<or>
          (2355 / 1000) * popt_sigma_y popt > real (box_size det))"

section \<open>statistics.py: all metrics of a batch\<close>

text \<open>
  \<^verbatim>\<open>calculate_all_metric_stats\<close>: the statistics of the five metrics, and those of
  \<^verbatim>\<open>fwhm_arcsec\<close> when at least one frame has a value for it (a missing value is NaN).
\<close>

definition calculate_all_metric_stats :: "frame_metrics list \<Rightarrow> (string \<rightharpoonup> metric_stats)" where
  "calculate_all_metric_stats metrics_list =
     (if metrics_list = [] then Map.empty
      else let result =
                 [''fwhm'' \<mapsto> calculate_bands (map (\<lambda>m. Finite (fwhm m)) metrics_list),
                  ''eccentricity'' \<mapsto>
                     calculate_bands (map (\<lambda>m. Finite (eccentricity m)) metrics_list),
                  ''snr'' \<mapsto> calculate_bands (map (\<lambda>m. Finite (snr m)) metrics_list),
                  ''star_count'' \<mapsto>
                     calculate_bands (map (\<lambda>m. Finite (real (star_count m))) metrics_list),
                  ''background'' \<mapsto> calculate_bands (map background metrics_list)];
               fwhm_arcsec_values = map fwhm_arcsec metrics_list
           in if list_ex (\<lambda>v. v \<noteq> None) fwhm_arcsec_values
              then result(''fwhm_arcsec'' \<mapsto>
                     calculate_bands
                       (map (\<lambda>v. case v of None \<Rightarrow> NaN | Some a \<Rightarrow> Finite a)
                            fwhm_arcsec_values))
              else result)"

section \<open>analyzer.py\<close>

text \<open>An entry of the list of files: the dict with the keys \<^verbatim>\<open>path\<close> and
  \<^verbatim>\<open>filename\<close>.\<close>

record file_info =
  path :: string
  filename :: string

text \<open>
  The result of one file: \<^verbatim>\<open>metrics\<close> is \<open>None\<close> for a failed file; the star
  counts are present in a successful result only and \<^verbatim>\<open>error\<close> in a failed one only.
\<close>

record file_result =
  filepath :: string
  result_filename :: string
  metrics :: "frame_metrics option"
  star_count_detected :: "nat option"
  star_count_fitted :: "nat option"
  error :: "string option"

record batch_result =
  total_files :: nat
  results :: "file_result list"
  statistics :: "string \<rightharpoonup> metric_stats"
  workers_used :: nat
  batch_imaging_params :: "imaging_params option"

text \<open>\<^verbatim>\<open>Path(filepath).name\<close>: the last component of a path.\<close>

definition path_name :: "string \<Rightarrow> string" where
  "path_name p = rev (takeWhile (\<lambda>c. c \<noteq> CHR ''/'') (rev p))"

text \<open>
  The analyzer: the three detection parameters and the number of workers, which
  \<^verbatim>\<open>__init__\<close> keeps between 1 and the number of cores. Its own star detector and
  the one every worker builds are \<^verbatim>\<open>StarDetector\<close> of the same three parameters,
  with the default box size 15.
\<close>

record analyzer =
  an_fwhm_estimate :: real
  an_threshold_sigma :: real
  an_max_stars :: int
  num_workers :: nat

definition star_detector_of :: "analyzer \<Rightarrow> star_detector" where
  "star_detector_of a =
     StarDetector (an_fwhm_estimate a) (an_threshold_sigma a) (an_max_stars a) 15"

text \<open>
  \<^verbatim>\<open>_analyze_single_file\<close>, the worker of the pool: the whole pipeline stands in a
  \<^verbatim>\<open>try\<close>, and every exception becomes a result with \<^verbatim>\<open>error\<close>.
\<close>

definition analyze_single_file ::
  "world \<Rightarrow> string \<times> real \<times> real \<times> int \<times> real option \<Rightarrow> file_result" where
  "analyze_single_file w args =
     (case args of (fpath, fe, ts, ms, scale) \<Rightarrow>
        let detector = StarDetector fe ts ms 15;
            failed = (\<lambda>e. \<lparr>filepath = fpath, result_filename = path_name fpath,
                           metrics = None, star_count_detected = None,
                           star_count_fitted = None, error = Some (str_of_exn e)\<rparr>)
        in case load_file w fpath of
             Inl e \<Rightarrow> failed e
           | Inr img \<Rightarrow>
               (case detect_stars w detector img of
                  Inl e \<Rightarrow> failed e
                | Inr stars \<Rightarrow>
                    let psf_results = fit_psf w detector img stars;
                        m = calculate_all img psf_results scale
                    in \<lparr>filepath = fpath, result_filename = path_name fpath,
                        metrics = Some m, star_count_detected = Some (length stars),
                        star_count_fitted = Some (length psf_results), error = None\<rparr>))"

text \<open>
  \<^verbatim>\<open>analyze_file\<close>: no \<^verbatim>\<open>try\<close>; without an image scale it reads the scale from the
  header of the file itself.
\<close>

definition analyze_file :: "world \<Rightarrow> analyzer \<Rightarrow> string \<Rightarrow> real option \<Rightarrow> exn + file_result" where
  "analyze_file w a fpath scale =
     (case load_file w fpath of
        Inl e \<Rightarrow> Inl e
      | Inr img \<Rightarrow>
          (case (if scale = None
                 then (case get_imaging_params w fpath of
                         Inl e \<Rightarrow> Inl e
                       | Inr ip \<Rightarrow> Inr (image_scale ip))
                 else Inr scale) of
             Inl e \<Rightarrow> Inl e
           | Inr scale' \<Rightarrow>
               (case detect_stars w (star_detector_of a) img of
                  Inl e \<Rightarrow> Inl e
                | Inr stars \<Rightarrow>
                    let psf_results = fit_psf w (star_detector_of a) img stars;
                        m = calculate_all img psf_results scale'
                    in Inr \<lparr>filepath = fpath, result_filename = path_name fpath,
                            metrics = Some m, star_count_detected = Some (length stars),
                            star_count_fitted = Some (length psf_results),
                            error = None\<rparr>)))"

text \<open>
  \<^verbatim>\<open>_analyze_sequential\<close>, without a progress callback: each call of
  \<^verbatim>\<open>analyze_file\<close> stands in a \<^verbatim>\<open>try\<close>.
\<close>

fun analyze_sequential :: "world \<Rightarrow> analyzer \<Rightarrow> file_info list \<Rightarrow> real option \<Rightarrow> file_result list" where
  "analyze_sequential w a [] scale = []"
| "analyze_sequential w a (file_info # rest) scale =
     (case analyze_file w a (path file_info) scale of
        Inr result \<Rightarrow> result
      | Inl e \<Rightarrow>
          \<lparr>filepath = path file_info, result_filename = filename file_info,
           metrics = None, star_count_detected = None, star_count_fitted = None,
           error = Some (str_of_exn e)\<rparr>)
     # analyze_sequential w a rest scale"

text \<open>
  \<^verbatim>\<open>_analyze_parallel\<close>, without a progress callback: \<^verbatim>\<open>Pool.imap\<close> yields the
  results of the worker in the order of its arguments.
\<close>

definition analyze_parallel :: "world \<Rightarrow> analyzer \<Rightarrow> file_info list \<Rightarrow> real option \<Rightarrow> file_result list" where
  "analyze_parallel w a files scale =
     (let args_list =
            map (\<lambda>f. (path f, an_fwhm_estimate a, an_threshold_sigma a, an_max_stars a, scale))
                files
      in map (analyze_single_file w) args_list)"

text \<open>\<^verbatim>\<open>[r['metrics'] for r in results if r.get('metrics')]\<close>\<close>

fun valid_metrics :: "file_result list \<Rightarrow> frame_metrics list" where
  "valid_metrics [] = []"
| "valid_metrics (r # rs) =
     (case metrics r of None \<Rightarrow> valid_metrics rs | Some m \<Rightarrow> m # valid_metrics rs)"

definition analyze_files :: "world \<Rightarrow> analyzer \<Rightarrow> file_info list \<Rightarrow> bool \<Rightarrow> exn + batch_result" where
  "analyze_files w a files use_parallel =
     (let total = length files
      in if total = 0
         then Inr \<lparr>total_files = 0, results = [], statistics = Map.empty, workers_used = 0,
                   batch_imaging_params = None\<rparr>
         else case get_imaging_params w (path (files ! 0)) of
                Inl e \<Rightarrow> Inl e
              | Inr ip \<Rightarrow>
                  let scale = image_scale ip;
                      workers = num_workers a;
                      par = (use_parallel \<and> workers > 1 \<and> total > 1);
                      rs = (if par then analyze_parallel w a files scale
                            else analyze_sequential w a files scale);
                      workers' = (if par then workers else 1)
                  in Inr \<lparr>total_files = total, results = rs,
                          statistics = calculate_all_metric_stats (valid_metrics rs),
                          workers_used = workers',
                          batch_imaging_params = Some ip\<rparr>)"

section \<open>Binary64 arithmetic\<close>

text \<open>
  The sections above compute on the reals. Two results of the program depend on what
  binary64 does where the reals do something else: the sum of the two middle values
  inside \<^verbatim>\<open>np.median\<close> can overflow, and \<^verbatim>\<open>1 - ratio_sq\<close> can round to 1. The
  functions that produce these results, \<^verbatim>\<open>calculate_bands\<close> with \<^verbatim>\<open>is_outlier\<close> and
  \<^verbatim>\<open>get_outlier_indices\<close>, and \<^verbatim>\<open>calculate_eccentricity\<close>, are embedded in this
  section operation by operation, each operation rounding its exact result to the
  nearest binary64 number.
\<close>

subsection \<open>Rounding\<close>

text \<open>Rounding to the nearest integer, a tie to the even one.\<close>

definition round_half_even :: "real \<Rightarrow> int" where
  "round_half_even v =
     (let f = \<lfloor>v\<rfloor>; d = v - of_int f
      in if d < 1 / 2 then f else if d > 1 / 2 then f + 1
         else if even f then f else f + 1)"

text \<open>
  A binary64 number is an integer multiple \<open>m * 2 ^ (e - 52)\<close> with \<open>\<bar>m\<bar> < 2 ^ 53\<close> and
  \<open>- 1022 \<le> e \<le> 1023\<close>. The exponent of a real is that of its binade, and \<open>- 1022\<close>
  below the smallest normal number, where the subnormal numbers keep the spacing
  \<open>2 ^ - 1074\<close>. \<open>ulp x\<close> is the spacing of the binary64 numbers around \<open>x\<close>.
\<close>

definition float_exponent :: "real \<Rightarrow> int" where
  "float_exponent x = max \<lfloor>log 2 \<bar>x\<bar>\<rfloor> (- 1022)"

definition ulp :: "real \<Rightarrow> real" where
  "ulp x = 2 powr (of_int (float_exponent x) - 52)"

text \<open>Round to nearest, ties to even, with an unbounded exponent.\<close>

definition round_real :: "real \<Rightarrow> real" where
  "round_real x = (if x = 0 then 0 else of_int (round_half_even (x / ulp x)) * ulp x)"

text \<open>
  The largest binary64 number is \<open>2 ^ 1024 - 2 ^ 971\<close>. A result that rounds to
  \<open>2 ^ 1024\<close> or beyond is the infinity of its sign. The two zeros are not told
  apart.
\<close>

definition overflow_bound :: real where
  "overflow_bound = 2 powr 1024"

definition round64 :: "real \<Rightarrow> float64" where
  "round64 x =
     (let y = round_real x
      in if \<bar>y\<bar> \<ge> overflow_bound then (if y > 0 then PosInf else NegInf) else Finite y)"

text \<open>The reals that are binary64 numbers.\<close>

definition is_double :: "real \<Rightarrow> bool" where
  "is_double c = (round_real c = c \<and> \<bar>c\<bar> < overflow_bound)"

subsection \<open>Operations\<close>

text \<open>
  The IEEE 754 operations the two computations use. On finite operands the exact
  result is rounded; the infinities and NaN follow the standard. Division by zero does
  not occur: the divisors are 2 and a width that has passed \<^verbatim>\<open>a > 0\<close>; the model gives
  numpy's value there.
\<close>

fun is_nan :: "float64 \<Rightarrow> bool" where
  "is_nan NaN = True"
| "is_nan v = False"

fun fneg :: "float64 \<Rightarrow> float64" where
  "fneg (Finite x) = Finite (- x)"
| "fneg PosInf = NegInf"
| "fneg NegInf = PosInf"
| "fneg NaN = NaN"

fun fabs :: "float64 \<Rightarrow> float64" where
  "fabs (Finite x) = Finite \<bar>x\<bar>"
| "fabs PosInf = PosInf"
| "fabs NegInf = PosInf"
| "fabs NaN = NaN"

fun fadd :: "float64 \<Rightarrow> float64 \<Rightarrow> float64" where
  "fadd (Finite x) (Finite y) = round64 (x + y)"
| "fadd NaN b = NaN"
| "fadd a NaN = NaN"
| "fadd PosInf NegInf = NaN"
| "fadd NegInf PosInf = NaN"
| "fadd PosInf b = PosInf"
| "fadd NegInf b = NegInf"
| "fadd a PosInf = PosInf"
| "fadd a NegInf = NegInf"

definition fsub :: "float64 \<Rightarrow> float64 \<Rightarrow> float64" where
  "fsub a b = fadd a (fneg b)"

fun fsign :: "float64 \<Rightarrow> int" where
  "fsign (Finite x) = (if x > 0 then 1 else if x < 0 then - 1 else 0)"
| "fsign PosInf = 1"
| "fsign NegInf = - 1"
| "fsign NaN = 0"

fun fmul :: "float64 \<Rightarrow> float64 \<Rightarrow> float64" where
  "fmul (Finite x) (Finite y) = round64 (x * y)"
| "fmul a b =
     (if is_nan a \<or> is_nan b \<or> fsign a * fsign b = 0 then NaN
      else if fsign a * fsign b > 0 then PosInf else NegInf)"

fun fdiv :: "float64 \<Rightarrow> float64 \<Rightarrow> float64" where
  "fdiv (Finite x) (Finite y) =
     (if y = 0 then (if x = 0 then NaN else if x > 0 then PosInf else NegInf)
      else round64 (x / y))"
| "fdiv NaN b = NaN"
| "fdiv a NaN = NaN"
| "fdiv (Finite x) b = Finite 0"
| "fdiv a (Finite y) = (if y \<ge> 0 then a else fneg a)"
| "fdiv a b = NaN"


text \<open>The comparisons \<^verbatim>\<open><\<close>, \<^verbatim>\<open>>\<close> and \<^verbatim>\<open>==\<close>: false whenever an operand is NaN.\<close>

fun flt :: "float64 \<Rightarrow> float64 \<Rightarrow> bool" where
  "flt (Finite x) (Finite y) = (x < y)"
| "flt NaN b = False"
| "flt a NaN = False"
| "flt PosInf b = False"
| "flt a PosInf = True"
| "flt a NegInf = False"
| "flt NegInf b = True"

definition fgt :: "float64 \<Rightarrow> float64 \<Rightarrow> bool" where
  "fgt a b = flt b a"

fun feq :: "float64 \<Rightarrow> float64 \<Rightarrow> bool" where
  "feq (Finite x) (Finite y) = (x = y)"
| "feq PosInf PosInf = True"
| "feq NegInf NegInf = True"
| "feq a b = False"



subsection \<open>The median\<close>

text \<open>
  \<^verbatim>\<open>np.median\<close> of a one-dimensional float64 array: NaN on an empty array and on one
  that holds a NaN; otherwise the array is ordered, the infinities at the ends, and the
  result is \<^verbatim>\<open>np.mean\<close> of the middle element, or of the two middle elements when the
  length is even: their rounded sum, divided by 2.
\<close>

fun sort_rank :: "float64 \<Rightarrow> int \<times> real" where
  "sort_rank NegInf = (- 1, 0)"
| "sort_rank (Finite x) = (0, x)"
| "sort_rank PosInf = (1, 0)"
| "sort_rank NaN = (2, 0)"

definition np_median_fp :: "float64 list \<Rightarrow> float64" where
  "np_median_fp xs =
     (if xs = [] \<or> list_ex is_nan xs then NaN
      else let s = sort_key sort_rank xs; n = length s; h = n div 2
           in if n mod 2 = 1 then s ! h
              else fdiv (fadd (s ! (h - 1)) (s ! h)) (Finite 2))"

subsection \<open>statistics.py in binary64\<close>

text \<open>The dict \<^verbatim>\<open>calculate_bands\<close> returns, its numbers as binary64 values.\<close>

record float_stats =
  f_median :: float64
  f_sigma :: float64
  f_mad :: float64
  f_band_1sigma :: "float64 \<times> float64"
  f_band_2sigma :: "float64 \<times> float64"
  f_min :: float64
  f_max :: float64

text \<open>The literals \<^verbatim>\<open>1.4826\<close> and \<^verbatim>\<open>0.001\<close>: the binary64 numbers nearest to them.\<close>

definition MAD_SCALE_FACTOR_fp :: float64 where
  "MAD_SCALE_FACTOR_fp = round64 (14826 / 10000)"

definition sigma_floor :: float64 where
  "sigma_floor = round64 (1 / 1000)"

definition empty_result_fp :: float_stats where
  "empty_result_fp =
     \<lparr>f_median = Finite 0, f_sigma = Finite 0, f_mad = Finite 0,
      f_band_1sigma = (Finite 0, Finite 0), f_band_2sigma = (Finite 0, Finite 0),
      f_min = Finite 0, f_max = Finite 0\<rparr>"

text \<open>\<^verbatim>\<open>median_absolute_deviation\<close>: \<^verbatim>\<open>np.median(np.abs(values - median))\<close>.\<close>

definition median_absolute_deviation_fp :: "float64 list \<Rightarrow> float64" where
  "median_absolute_deviation_fp vals =
     (if length vals = 0 then Finite 0
      else let m = np_median_fp vals
           in np_median_fp (map (\<lambda>v. fabs (fsub v m)) vals))"

definition np_min_fp :: "float64 list \<Rightarrow> float64" where
  "np_min_fp xs = fold (\<lambda>v m. if flt v m then v else m) (tl xs) (hd xs)"

definition np_max_fp :: "float64 list \<Rightarrow> float64" where
  "np_max_fp xs = fold (\<lambda>v m. if fgt v m then v else m) (tl xs) (hd xs)"

text \<open>
  \<^verbatim>\<open>calculate_bands\<close>: the values that pass \<^verbatim>\<open>np.isfinite\<close>, their median, their MAD,
  \<^verbatim>\<open>sigma = mad * 1.4826\<close>, replaced by \<^verbatim>\<open>0.001\<close> when \<^verbatim>\<open>sigma == 0\<close>.
\<close>

definition calculate_bands_fp :: "float64 list \<Rightarrow> float_stats" where
  "calculate_bands_fp vals =
     (if length vals = 0 then empty_result_fp
      else let valid = filter isfinite vals
           in if valid = [] then empty_result_fp
              else let med = np_median_fp valid;
                       md = median_absolute_deviation_fp valid;
                       sg0 = fmul md MAD_SCALE_FACTOR_fp;
                       sg = (if feq sg0 (Finite 0) then sigma_floor else sg0)
                   in \<lparr>f_median = med, f_sigma = sg, f_mad = md,
                       f_band_1sigma = (fsub med sg, fadd med sg),
                       f_band_2sigma = (fsub med (fmul (Finite 2) sg),
                                        fadd med (fmul (Finite 2) sg)),
                       f_min = np_min_fp valid, f_max = np_max_fp valid\<rparr>)"

text \<open>
  \<^verbatim>\<open>is_outlier(value, stats, sigma_threshold)\<close>: false when \<^verbatim>\<open>stats['sigma'] == 0\<close>,
  otherwise \<^verbatim>\<open>abs(value - stats['median']) > sigma_threshold * stats['sigma']\<close>.
\<close>

definition is_outlier :: "float64 \<Rightarrow> float_stats \<Rightarrow> float64 \<Rightarrow> bool" where
  "is_outlier v stats sigma_threshold =
     (if feq (f_sigma stats) (Finite 0) then False
      else fgt (fabs (fsub v (f_median stats))) (fmul sigma_threshold (f_sigma stats)))"

text \<open>The loop of \<^verbatim>\<open>get_outlier_indices\<close> over \<^verbatim>\<open>enumerate(values)\<close>, from index \<open>i\<close>.\<close>

fun outlier_loop :: "float_stats \<Rightarrow> float64 \<Rightarrow> nat \<Rightarrow> float64 list \<Rightarrow> nat list" where
  "outlier_loop stats t i [] = []"
| "outlier_loop stats t i (v # vs) =
     (if isfinite v \<and> is_outlier v stats t then i # outlier_loop stats t (Suc i) vs
      else outlier_loop stats t (Suc i) vs)"

definition get_outlier_indices :: "float64 list \<Rightarrow> float64 \<Rightarrow> nat list" where
  "get_outlier_indices vals sigma_threshold =
     outlier_loop (calculate_bands_fp vals) sigma_threshold 0 vals"

subsection \<open>The eccentricity metric in binary64\<close>








subsection \<open>The eccentricity metric in the words of the specification\<close>



section \<open>Example inputs\<close>

text \<open>A world whose solver returns a Gaussian far wider than any window.\<close>

definition wide_fit_world :: world where
  "wide_fit_world =
     \<lparr>path_exists = (\<lambda>p. False),
      fits_open = (\<lambda>p. Inl (Raise OSError ''No such file'')),
      float_of_str = Map.empty,
      photutils_available = False,
      daofind = (\<lambda>det img. Inr None),
      label_peaks = (\<lambda>det img. Inr []),
      curve_fit = (\<lambda>fe cutout.
         Inr \<lparr>popt_amplitude = 100, popt_x0 = 1, popt_y0 = 1, popt_sigma_x = 10,
              popt_sigma_y = 10, popt_offset = 0\<rparr>)\<rparr>"

text \<open>
  Three files: one that astropy cannot open, one whose header has no optical cards, one
  with a pixel size of 4 microns and a focal length of 1000 mm; the readable ones hold a
  frame of 15 by 15 pixels. The source finder of this world reports one source in the
  middle of a frame and the solver a round Gaussian of sigma 2. An analyzer with two
  workers.
\<close>

definition blank_frame :: image where
  "blank_frame = replicate 15 (replicate 15 0)"

definition batch_world :: world where
  "batch_world =
     \<lparr>path_exists = (\<lambda>p. True),
      fits_open = (\<lambda>p.
         if p = ''/data/corrupt.fits'' then Inl (Raise OSError ''Empty or corrupt FITS file'')
         else if p = ''/data/plain.fits''
         then Inr [\<lparr>hdu_header = [(''SIMPLE'', HBool True)], hdu_data = Array2 blank_frame\<rparr>]
         else Inr [\<lparr>hdu_header = [(''XPIXSZ'', HFloat 4), (''FOCALLEN'', HInt 1000)],
                    hdu_data = Array2 blank_frame\<rparr>]),
      float_of_str = Map.empty,
      photutils_available = True,
      daofind = (\<lambda>det img.
         Inr (Some [\<lparr>xcentroid = 7, ycentroid = 7, src_flux = 100, src_peak = 50\<rparr>])),
      label_peaks = (\<lambda>det img. Inr []),
      curve_fit = (\<lambda>fe cutout.
         Inr \<lparr>popt_amplitude = 40, popt_x0 = 7, popt_y0 = 7, popt_sigma_x = 2,
              popt_sigma_y = 2, popt_offset = 0\<rparr>)\<rparr>"

definition two_workers :: analyzer where
  "two_workers = \<lparr>an_fwhm_estimate = 5, an_threshold_sigma = 5, an_max_stars = 500, num_workers = 2\<rparr>"

definition corrupt_file :: file_info where
  "corrupt_file = \<lparr>path = ''/data/corrupt.fits'', filename = ''corrupt.fits''\<rparr>"

definition plain_file :: file_info where
  "plain_file = \<lparr>path = ''/data/plain.fits'', filename = ''plain.fits''\<rparr>"

definition scaled_file :: file_info where
  "scaled_file = \<lparr>path = ''/data/scaled.fits'', filename = ''scaled.fits''\<rparr>"

text \<open>
  A frame on which the labelling finds two peaks, the fainter one first in label order.
\<close>

definition two_peak_frame :: image where
  "two_peak_frame = [[1, 0, 0], [0, 0, 0], [0, 0, 10]]"

definition two_peak_world :: world where
  "two_peak_world =
     \<lparr>path_exists = (\<lambda>p. True),
      fits_open = (\<lambda>p. Inr [\<lparr>hdu_header = [], hdu_data = Array2 two_peak_frame\<rparr>]),
      float_of_str = Map.empty,
      photutils_available = False,
      daofind = (\<lambda>det img.
         Inr (Some [\<lparr>xcentroid = 0, ycentroid = 0, src_flux = 1, src_peak = 1\<rparr>,
                    \<lparr>xcentroid = 2, ycentroid = 2, src_flux = 10, src_peak = 10\<rparr>])),
      label_peaks = (\<lambda>det img. Inr [[(0, 0)], [(2, 2)]]),
      curve_fit = (\<lambda>fe cutout. Inl (Raise ValueError ''no fit''))\<rparr>"

text \<open>The largest power of two among the binary64 numbers, about \<^verbatim>\<open>8.99e307\<close>.\<close>

definition largest_power :: real where
  "largest_power = 2 powr 1023"

section \<open>Empty and non-finite input\<close>

lemma finite_values_none:
  "(\<forall>v \<in> set vals. \<not> isfinite v) \<Longrightarrow> finite_values vals = []"
  by (induction vals rule: finite_values.induct) auto

text \<open>
  C7. For an empty array, or one whose values are all NaN or infinite,
  \<open>calculate_bands\<close> returns the neutral record: median, sigma and MAD are 0, both
  bands are (0, 0), minimum and maximum are 0. The function is total, so no exception
  stands behind the result.
\<close>

theorem calculate_bands_neutral:
  assumes "vals = [] \<or> (\<forall>v \<in> set vals. \<not> isfinite v)"
  shows "calculate_bands vals =
           \<lparr>median = 0, sigma = 0, mad = 0, band_1sigma = (0, 0), band_2sigma = (0, 0),
            min_value = 0, max_value = 0\<rparr>"
proof (cases "vals = []")
  case True
  then show ?thesis by (simp add: calculate_bands_def empty_result_def)
next
  case False
  with assms have "finite_values vals = []" by (simp add: finite_values_none)
  then show ?thesis by (simp add: calculate_bands_def empty_result_def)
qed

theorem calculate_bands_neutral_witness:
  "calculate_bands [] = empty_result \<and> calculate_bands [NaN, PosInf, NegInf] = empty_result"
  using calculate_bands_neutral [of "[]"] calculate_bands_neutral [of "[NaN, PosInf, NegInf]"]
  by (simp add: empty_result_def)

section \<open>Order of the input\<close>

lemma finite_values_filter:
  "finite_values vs = map (\<lambda>v. case v of Finite x \<Rightarrow> x | _ \<Rightarrow> 0) (filter isfinite vs)"
  by (induction vs rule: finite_values.induct) auto

lemma mset_finite_values:
  assumes "mset vs = mset ws"
  shows "mset (finite_values vs) = mset (finite_values ws)"
proof -
  have "mset (filter isfinite vs) = mset (filter isfinite ws)"
    using assms by (metis mset_filter)
  then show ?thesis
    unfolding finite_values_filter by (metis mset_map)
qed

lemma sort_mset_cong:
  fixes xs ys :: "real list"
  assumes "mset xs = mset ys"
  shows "sort xs = sort ys"
  using assms by (metis sorted_list_of_multiset_mset)

lemma np_median_mset_cong:
  "mset xs = mset ys \<Longrightarrow> np_median xs = np_median ys"
  by (simp add: np_median_def sort_mset_cong [of xs ys])

lemma mad_mset_cong:
  assumes "mset xs = mset ys"
  shows "median_absolute_deviation xs = median_absolute_deviation ys"
proof -
  have len: "length xs = length ys"
    using assms by (metis size_mset)
  have m: "np_median xs = np_median ys"
    using assms by (rule np_median_mset_cong)
  have "mset (map (\<lambda>x. \<bar>x - np_median xs\<bar>) xs) = mset (map (\<lambda>x. \<bar>x - np_median xs\<bar>) ys)"
    using assms by (metis mset_map)
  then have "np_median (map (\<lambda>x. \<bar>x - np_median xs\<bar>) xs)
           = np_median (map (\<lambda>x. \<bar>x - np_median ys\<bar>) ys)"
    using m np_median_mset_cong by metis
  then show ?thesis
    using len by (simp add: median_absolute_deviation_def Let_def)
qed

lemmas stats_eval =
  calculate_bands_def Let_def np_median_def median_absolute_deviation_def
  MAD_SCALE_FACTOR_def np_min_def np_max_def

text \<open>
  C9. Median, MAD and sigma of \<open>calculate_bands\<close> do not depend on the order of the
  input: two arrays that are permutations of each other (equal as multisets, NaN and
  infinite entries included) give the same median, the same MAD and the same sigma.
\<close>

theorem calculate_bands_permutation:
  assumes "mset vals = mset vals'"
  shows "median (calculate_bands vals) = median (calculate_bands vals')
       \<and> mad (calculate_bands vals) = mad (calculate_bands vals')
       \<and> sigma (calculate_bands vals) = sigma (calculate_bands vals')"
proof -
  have len: "length vals = length vals'"
    using assms by (metis size_mset)
  have fv: "mset (finite_values vals) = mset (finite_values vals')"
    using assms by (rule mset_finite_values)
  then have e: "finite_values vals = [] \<longleftrightarrow> finite_values vals' = []"
    by (metis mset_zero_iff)
  have m: "np_median (finite_values vals) = np_median (finite_values vals')"
    using fv by (rule np_median_mset_cong)
  have d: "median_absolute_deviation (finite_values vals)
         = median_absolute_deviation (finite_values vals')"
    using fv by (rule mad_mset_cong)
  show ?thesis
    using len e m d by (simp add: calculate_bands_def Let_def)
qed

theorem calculate_bands_permutation_witness:
  "mset [Finite 3, NaN, Finite 1, Finite 2] = mset [Finite 1, Finite 2, NaN, Finite 3]
   \<and> median (calculate_bands [Finite 3, NaN, Finite 1, Finite 2]) = 2
   \<and> median (calculate_bands [Finite 1, Finite 2, NaN, Finite 3]) = 2
   \<and> mad (calculate_bands [Finite 3, NaN, Finite 1, Finite 2])
     = mad (calculate_bands [Finite 1, Finite 2, NaN, Finite 3])
   \<and> sigma (calculate_bands [Finite 3, NaN, Finite 1, Finite 2])
     = sigma (calculate_bands [Finite 1, Finite 2, NaN, Finite 3])"
proof -
  have h: "mset [Finite 3, NaN, Finite 1, Finite 2] = mset [Finite 1, Finite 2, NaN, Finite 3]"
    by simp
  have m: "median (calculate_bands [Finite 3, NaN, Finite 1, Finite 2]) = 2"
    by (simp add: stats_eval)
  show ?thesis
    using h m calculate_bands_permutation [OF h] by simp
qed

section \<open>Rounding to binary64\<close>

lemma below_overflow:
  assumes "k \<le> 1023"
  shows "2 powr of_int k < overflow_bound"
proof -
  have "(of_int k :: real) < 1024" using assms by simp
  then have "(2::real) powr of_int k < 2 powr 1024"
    by (simp only: powr_less_cancel_iff one_less_numeral_iff semiring_norm)
  then show ?thesis by (simp only: overflow_bound_def)
qed

lemma overflow_bound_pos: "0 < overflow_bound"
  by (simp only: overflow_bound_def powr_gt_zero)

lemma round_half_even_int: "round_half_even (of_int n) = n"
  by (simp add: round_half_even_def)

lemma round_half_even_le:
  assumes "v \<le> of_int n"
  shows "round_half_even v \<le> n"
proof -
  have f: "\<lfloor>v\<rfloor> \<le> n" using assms by (simp add: floor_le_iff)
  show ?thesis
  proof (cases "\<lfloor>v\<rfloor> = n")
    case True
    then have "v = of_int n" using assms
      by (metis of_int_floor_le order_antisym)
    then show ?thesis by (simp add: round_half_even_int)
  next
    case False
    then have "\<lfloor>v\<rfloor> + 1 \<le> n" using f by simp
    then show ?thesis
      by (simp add: round_half_even_def Let_def)
  qed
qed

lemma round_half_even_ge:
  assumes "of_int n \<le> v"
  shows "n \<le> round_half_even v"
proof -
  have "n \<le> \<lfloor>v\<rfloor>" using assms by (simp add: le_floor_iff)
  then show ?thesis
    by (simp add: round_half_even_def Let_def)
qed

lemma ulp_pos: "0 < ulp x"
  by (simp add: ulp_def)

lemma round_real_nonneg:
  assumes "0 \<le> x"
  shows "0 \<le> round_real x"
proof (cases "x = 0")
  case True
  then show ?thesis by (simp add: round_real_def)
next
  case False
  have "of_int 0 \<le> x / ulp x" using assms ulp_pos [of x] by simp
  then have "0 \<le> round_half_even (x / ulp x)" by (rule round_half_even_ge)
  then show ?thesis using False ulp_pos [of x] by (simp add: round_real_def)
qed

lemma float_exponent_le:
  assumes "0 < x" and "x \<le> 2 powr of_int k" and "- 1022 \<le> k"
  shows "float_exponent x \<le> k"
proof -
  have "log 2 x \<le> of_int k"
    using assms(1,2) by (simp add: log_le_iff)
  then have "\<lfloor>log 2 x\<rfloor> \<le> k"
    by (simp add: floor_le_iff)
  then show ?thesis using assms by (simp add: float_exponent_def)
qed

lemma powr_int_is_int:
  assumes "0 \<le> j"
  shows "(2::real) powr of_int j = of_int (2 ^ nat j)"
proof -
  have "2 powr of_int j = (2::real) powr real (nat j)" using assms by simp
  also have "\<dots> = 2 ^ nat j" by (simp add: powr_realpow)
  finally show ?thesis by simp
qed

lemma pow_split:
  "(2::real) powr of_int k = 2 powr of_int (k - float_exponent x + 52) * ulp x"
proof -
  have "2 powr of_int (k - float_exponent x + 52) * ulp x
      = (2::real) powr (of_int (k - float_exponent x + 52) + (of_int (float_exponent x) - 52))"
    unfolding ulp_def by (rule powr_add [symmetric])
  also have "of_int (k - float_exponent x + 52) + (of_int (float_exponent x) - 52)
      = (of_int k :: real)"
    by simp
  finally show ?thesis by simp
qed

lemma round_real_le_pow:
  assumes "0 \<le> x" and "x \<le> 2 powr of_int k" and "- 1022 \<le> k"
  shows "round_real x \<le> 2 powr of_int k"
proof (cases "x = 0")
  case True
  then show ?thesis by (simp add: round_real_def)
next
  case False
  then have pos: "0 < x" using assms by simp
  let ?e = "float_exponent x"
  let ?n = "2 ^ nat (k - ?e + 52) :: int"
  have e: "?e \<le> k" using pos assms(2,3) by (rule float_exponent_le)
  then have "0 \<le> k - ?e + 52" by simp
  then have int: "(2::real) powr of_int (k - ?e + 52) = of_int ?n"
    by (rule powr_int_is_int)
  have split: "(2::real) powr of_int k = of_int ?n * ulp x"
    using pow_split [of k x] int by simp
  have "x / ulp x \<le> of_int ?n"
    using assms(2) ulp_pos [of x] split by (simp add: pos_divide_le_eq)
  then have "round_half_even (x / ulp x) \<le> ?n"
    by (rule round_half_even_le)
  then have "(of_int (round_half_even (x / ulp x)) :: real) \<le> of_int ?n"
    by (simp only: of_int_le_iff)
  then have "of_int (round_half_even (x / ulp x)) * ulp x \<le> of_int ?n * ulp x"
    using ulp_pos [of x] by (simp only: mult_le_cancel_right_pos)
  then show ?thesis using False split by (simp add: round_real_def)
qed

lemma round64_range:
  assumes "0 \<le> x" and "x \<le> 2 powr of_int k" and "- 1022 \<le> k" and "k \<le> 1023"
  shows "\<exists>y. round64 x = Finite y \<and> 0 \<le> y \<and> y \<le> 2 powr of_int k"
proof -
  have lo: "0 \<le> round_real x" using assms(1) by (rule round_real_nonneg)
  have hi: "round_real x \<le> 2 powr of_int k" using assms(1,2,3) by (rule round_real_le_pow)
  have "(2::real) powr of_int k < overflow_bound"
    using assms(4) by (rule below_overflow)
  then have "\<bar>round_real x\<bar> < overflow_bound" using lo hi by linarith
  then show ?thesis using lo hi by (simp add: round64_def Let_def)
qed

lemma float_exponent_pow2:
  assumes "- 1022 \<le> k"
  shows "float_exponent (2 powr of_int k) = k"
  using assms by (simp add: float_exponent_def)

lemma round_real_pow2:
  assumes "- 1022 \<le> k"
  shows "round_real (2 powr of_int k) = 2 powr of_int k"
proof -
  let ?x = "(2::real) powr of_int k"
  have e: "float_exponent ?x = k" using assms by (rule float_exponent_pow2)
  have int: "(2::real) powr of_int (k - float_exponent ?x + 52) = of_int (2 ^ nat 52)"
    unfolding e using powr_int_is_int [of 52] by simp
  have split: "?x = of_int (2 ^ nat 52) * ulp ?x"
    using pow_split [of k ?x] int by simp
  then have "?x / ulp ?x = of_int (2 ^ nat 52)"
    using ulp_pos [of ?x] by (simp add: field_simps)
  then have "round_half_even (?x / ulp ?x) = 2 ^ nat 52"
    by (simp only: round_half_even_int)
  then have "round_real ?x = of_int (2 ^ nat 52) * ulp ?x"
    by (simp add: round_real_def)
  then show ?thesis using split by simp
qed


lemma round_real_ge_pow:
  assumes "2 powr of_int k \<le> x" and "- 1022 \<le> k"
  shows "2 powr of_int k \<le> round_real x"
proof -
  have pos: "0 < x" using assms(1) by (smt (verit) powr_gt_zero)
  let ?e = "float_exponent x"
  have "of_int k \<le> log 2 x" using pos assms(1) by (simp add: le_log_iff)
  then have k: "k \<le> \<lfloor>log 2 x\<rfloor>" by (simp add: le_floor_iff)
  then have e: "?e = \<lfloor>log 2 x\<rfloor>" using assms(2) pos by (simp add: float_exponent_def)
  have "of_int ?e \<le> log 2 x" unfolding e by simp
  then have below: "2 powr of_int ?e \<le> x" using pos by (simp add: le_log_iff)
  have int: "(2::real) powr of_int (?e - ?e + 52) = of_int (2 ^ nat 52)"
    using powr_int_is_int [of 52] by simp
  have split: "(2::real) powr of_int ?e = of_int (2 ^ nat 52) * ulp x"
    using pow_split [of ?e x] int by simp
  then have "of_int (2 ^ nat 52) \<le> x / ulp x"
    using below ulp_pos [of x] by (simp add: pos_le_divide_eq)
  then have "2 ^ nat 52 \<le> round_half_even (x / ulp x)"
    by (rule round_half_even_ge)
  then have "(of_int (2 ^ nat 52) :: real) \<le> of_int (round_half_even (x / ulp x))"
    by (simp only: of_int_le_iff)
  then have "of_int (2 ^ nat 52) * ulp x \<le> of_int (round_half_even (x / ulp x)) * ulp x"
    using ulp_pos [of x] by (simp only: mult_le_cancel_right_pos)
  then have "2 powr of_int ?e \<le> round_real x"
    using split pos by (simp add: round_real_def)
  moreover have "(2::real) powr of_int k \<le> 2 powr of_int ?e"
    using k e by simp
  ultimately show ?thesis by linarith
qed

lemma round_real_zero: "round_real 0 = 0"
  by (simp add: round_real_def)

lemma round64_zero: "round64 0 = Finite 0"
  by (simp add: round64_def round_real_zero overflow_bound_def Let_def)


lemma round64_double: "is_double c \<Longrightarrow> round64 c = Finite c"
  by (simp add: is_double_def round64_def Let_def)

lemma is_double_zero: "is_double 0"
  using overflow_bound_pos by (simp add: is_double_def round_real_zero)

lemma round64_nonneg_cases:
  assumes "0 \<le> x"
  shows "round64 x = PosInf \<or> (\<exists>y. round64 x = Finite y \<and> 0 \<le> y)"
  using round_real_nonneg [OF assms] overflow_bound_pos by (auto simp: round64_def Let_def)

lemma positive_literal:
  assumes "2 powr of_int k \<le> x" and "x \<le> 2 powr of_int j"
    and "- 1022 \<le> k" and "j \<le> 1023"
  shows "\<exists>y. round64 x = Finite y \<and> 0 < y"
proof -
  have pos: "0 < (2::real) powr of_int k" by simp
  have kj: "k \<le> j"
  proof -
    have "(2::real) powr of_int k \<le> 2 powr of_int j" using assms(1,2) by linarith
    then show ?thesis by simp
  qed
  have "0 \<le> x" using pos assms(1) by linarith
  then obtain y where y: "round64 x = Finite y" "0 \<le> y"
    using round64_range [of x j] assms(2,3,4) kj by auto
  have "round_real x = y"
    using y(1) by (auto simp: round64_def Let_def split: if_splits)
  then have "2 powr of_int k \<le> y"
    using round_real_ge_pow [OF assms(1,3)] by simp
  then have "0 < y" using pos by linarith
  then show ?thesis using y(1) by blast
qed

lemma ulp_twice_normal:
  assumes "c \<noteq> 0" and "- 1022 \<le> \<lfloor>log 2 \<bar>c\<bar>\<rfloor>"
  shows "ulp (c + c) = 2 * ulp c"
proof -
  have "log 2 \<bar>c + c\<bar> = log 2 (2 * \<bar>c\<bar>)" by (simp add: abs_if)
  also have "\<dots> = 1 + log 2 \<bar>c\<bar>" using assms(1) by (simp add: log_mult)
  finally have "\<lfloor>log 2 \<bar>c + c\<bar>\<rfloor> = \<lfloor>log 2 \<bar>c\<bar>\<rfloor> + 1" by simp
  then have "float_exponent (c + c) = float_exponent c + 1"
    using assms(2) by (simp add: float_exponent_def)
  then have "ulp (c + c) = 2 powr (1 + (of_int (float_exponent c) - 52))"
    by (simp add: ulp_def add.commute)
  also have "\<dots> = 2 powr 1 * 2 powr (of_int (float_exponent c) - 52)"
    by (rule powr_add)
  finally show ?thesis by (simp add: ulp_def)
qed

lemma ulp_twice_subnormal:
  assumes "c \<noteq> 0" and "\<lfloor>log 2 \<bar>c\<bar>\<rfloor> < - 1022"
  shows "ulp (c + c) = ulp c"
proof -
  have "log 2 \<bar>c + c\<bar> = log 2 (2 * \<bar>c\<bar>)" by (simp add: abs_if)
  also have "\<dots> = 1 + log 2 \<bar>c\<bar>" using assms(1) by (simp add: log_mult)
  finally have l: "\<lfloor>log 2 \<bar>c + c\<bar>\<rfloor> = \<lfloor>log 2 \<bar>c\<bar>\<rfloor> + 1" by simp
  have "max (\<lfloor>log 2 \<bar>c\<bar>\<rfloor> + 1) (- 1022) = - 1022"
    using assms(2) by linarith
  moreover have "max \<lfloor>log 2 \<bar>c\<bar>\<rfloor> (- 1022) = - 1022"
    using assms(2) by linarith
  ultimately have "float_exponent (c + c) = float_exponent c"
    unfolding float_exponent_def l by simp
  then show ?thesis by (simp add: ulp_def)
qed

lemma round_real_twice:
  assumes "round_real c = c"
  shows "round_real (c + c) = c + c"
proof (cases "c = 0")
  case True
  then show ?thesis by (simp add: round_real_zero)
next
  case False
  then have nz: "c + c \<noteq> 0" by simp
  have c: "of_int (round_half_even (c / ulp c)) * ulp c = c"
    using assms False by (simp add: round_real_def)
  show ?thesis
  proof (cases "- 1022 \<le> \<lfloor>log 2 \<bar>c\<bar>\<rfloor>")
    case True
    have u: "ulp (c + c) = 2 * ulp c" using False True by (rule ulp_twice_normal)
    have "(c + c) / ulp (c + c) = c / ulp c"
      unfolding u by simp
    then have "round_real (c + c) = of_int (round_half_even (c / ulp c)) * (2 * ulp c)"
      using nz u by (simp add: round_real_def)
    also have "\<dots> = 2 * (of_int (round_half_even (c / ulp c)) * ulp c)" by simp
    finally show ?thesis using c by simp
  next
    case sub: False
    then have "\<lfloor>log 2 \<bar>c\<bar>\<rfloor> < - 1022" by simp
    with False have u: "ulp (c + c) = ulp c" by (rule ulp_twice_subnormal)
    let ?m = "round_half_even (c / ulp c)"
    have "c / ulp c = of_int ?m"
      using c ulp_pos [of c] by (simp add: field_simps)
    then have "(c + c) / ulp c = of_int (2 * ?m)"
      by (simp add: add_divide_distrib)
    then have "round_half_even ((c + c) / ulp c) = 2 * ?m"
      by (simp only: round_half_even_int)
    then have "round_real (c + c) = of_int (2 * ?m) * ulp c"
      using nz u by (simp add: round_real_def)
    also have "\<dots> = 2 * (of_int ?m * ulp c)" by simp
    finally show ?thesis using c by simp
  qed
qed








section \<open>A batch of identical values\<close>

lemma sigma_floor_positive: "\<exists>s. sigma_floor = Finite s \<and> 0 < s"
proof -
  have "(2::real) powr of_int (- 10) \<le> 1 / 1000"
    by (simp add: powr_minus inverse_eq_divide)
  moreover have "(1 / 1000 :: real) \<le> 2 powr of_int 0" by simp
  ultimately show ?thesis
    unfolding sigma_floor_def by (rule positive_literal) simp_all
qed

lemma scale_factor_positive: "\<exists>k. MAD_SCALE_FACTOR_fp = Finite k \<and> 0 < k"
proof -
  have "(2::real) powr of_int 0 \<le> 14826 / 10000" by simp
  moreover have "(14826 / 10000 :: real) \<le> 2 powr of_int 1" by simp
  ultimately show ?thesis
    unfolding MAD_SCALE_FACTOR_fp_def by (rule positive_literal) simp_all
qed

lemma np_median_fp_replicate:
  assumes "0 < n" and "\<not> is_nan v"
  shows "np_median_fp (replicate n v) = (if odd n then v else fdiv (fadd v v) (Finite 2))"
proof -
  have s: "sort_key sort_rank (replicate n v) = replicate n v"
    by (simp add: sort_key_id_if_sorted sorted_replicate)
  have nn: "\<not> list_ex is_nan (replicate n v)"
    using assms(2) by (simp add: list_ex_iff)
  have "n div 2 < n" using assms(1) by simp
  moreover have "n div 2 - 1 < n" using assms(1) by arith
  ultimately show ?thesis
    using assms(1) nn by (simp add: np_median_fp_def s Let_def odd_iff_mod_2_eq_one)
qed

lemma filter_identical:
  "(\<forall>v \<in> set vs. v = Finite c) \<Longrightarrow> filter isfinite vs = replicate (length vs) (Finite c)"
  by (induction vs) auto

lemma mean_of_pair:
  assumes "is_double c"
  shows "fdiv (fadd (Finite c) (Finite c)) (Finite 2) =
           (if \<bar>c + c\<bar> < overflow_bound then Finite c
            else if 0 < c then PosInf else NegInf)"
proof -
  have r: "round_real (c + c) = c + c"
    using assms round_real_twice [of c] unfolding is_double_def by blast
  show ?thesis
  proof (cases "\<bar>c + c\<bar> < overflow_bound")
    case True
    then have "round64 (c + c) = Finite (c + c)"
      by (simp only: round64_def r Let_def) simp
    moreover have "round64 ((c + c) / 2) = Finite c"
      using round64_double [OF assms] by simp
    ultimately show ?thesis using True by simp
  next
    case False
    then have big: "overflow_bound \<le> \<bar>c + c\<bar>" by simp
    have "round64 (c + c) = (if 0 < c + c then PosInf else NegInf)"
      using big by (simp only: round64_def r Let_def) simp
    moreover have "0 < c + c \<longleftrightarrow> 0 < c" by simp
    ultimately show ?thesis using False by simp
  qed
qed

lemma median_identical:
  assumes "0 < n" and "is_double c"
  shows "np_median_fp (replicate n (Finite c)) =
           (if odd n \<or> \<bar>c + c\<bar> < overflow_bound then Finite c
            else if 0 < c then PosInf else NegInf)"
  using np_median_fp_replicate [OF assms(1), of "Finite c"] mean_of_pair [OF assms(2)]
  by simp

lemma deviation_zero: "fabs (fsub (Finite c) (Finite c)) = Finite 0"
  by (simp add: fsub_def round64_zero)

lemma median_zeros:
  assumes "0 < n"
  shows "np_median_fp (replicate n (Finite 0)) = Finite 0"
  using median_identical [OF assms is_double_zero] overflow_bound_pos by simp

lemma mad_identical_finite:
  assumes "0 < n" and "np_median_fp (replicate n (Finite c)) = Finite c"
  shows "median_absolute_deviation_fp (replicate n (Finite c)) = Finite 0"
  using assms by (simp add: median_absolute_deviation_fp_def deviation_zero median_zeros)

lemma median_infinities:
  assumes "0 < n" and "even n"
  shows "np_median_fp (replicate n PosInf) = PosInf"
  using np_median_fp_replicate [OF assms(1), of PosInf] assms(2) by simp

lemma deviation_from_infinity:
  "fabs (fsub (Finite c) PosInf) = PosInf" "fabs (fsub (Finite c) NegInf) = PosInf"
  by (simp_all add: fsub_def)

lemma mad_identical_overflow:
  assumes "0 < n" and "even n"
    and "np_median_fp (replicate n (Finite c)) = P" and "P = PosInf \<or> P = NegInf"
  shows "median_absolute_deviation_fp (replicate n (Finite c)) = PosInf"
  using assms
  by (auto simp: median_absolute_deviation_fp_def deviation_from_infinity median_infinities)

lemma bands_identical_finite:
  assumes "vals \<noteq> []" and "\<forall>v \<in> set vals. v = Finite c" and "is_double c"
    and "odd (length vals) \<or> \<bar>c + c\<bar> < overflow_bound"
  shows "f_median (calculate_bands_fp vals) = Finite c"
    and "f_sigma (calculate_bands_fp vals) = sigma_floor"
proof -
  let ?n = "length vals"
  have n: "0 < ?n" using assms(1) by simp
  have fv: "filter isfinite vals = replicate ?n (Finite c)"
    using assms(2) by (rule filter_identical)
  have med: "np_median_fp (replicate ?n (Finite c)) = Finite c"
    using median_identical [OF n assms(3)] assms(4) by auto
  have md: "median_absolute_deviation_fp (replicate ?n (Finite c)) = Finite 0"
    using n med by (rule mad_identical_finite)
  obtain k where k: "MAD_SCALE_FACTOR_fp = Finite k"
    using scale_factor_positive by blast
  have sg0: "fmul (Finite 0) MAD_SCALE_FACTOR_fp = Finite 0"
    by (simp add: k round64_zero)
  show "f_median (calculate_bands_fp vals) = Finite c"
    using n by (simp add: calculate_bands_fp_def fv med Let_def)
  show "f_sigma (calculate_bands_fp vals) = sigma_floor"
    using n by (simp add: calculate_bands_fp_def fv md sg0 Let_def del: fmul.simps)
qed

lemma bands_identical_overflow:
  assumes "vals \<noteq> []" and "\<forall>v \<in> set vals. v = Finite c" and "is_double c"
    and "even (length vals)" and "overflow_bound \<le> \<bar>c + c\<bar>"
  shows "f_median (calculate_bands_fp vals) = (if 0 < c then PosInf else NegInf)"
    and "f_sigma (calculate_bands_fp vals) = PosInf"
proof -
  let ?n = "length vals"
  let ?P = "if 0 < c then PosInf else NegInf"
  have n: "0 < ?n" using assms(1) by simp
  have fv: "filter isfinite vals = replicate ?n (Finite c)"
    using assms(2) by (rule filter_identical)
  have med: "np_median_fp (replicate ?n (Finite c)) = ?P"
    using median_identical [OF n assms(3)] assms(4,5) by auto
  have "?P = PosInf \<or> ?P = NegInf" by simp
  with n assms(4) med
  have md: "median_absolute_deviation_fp (replicate ?n (Finite c)) = PosInf"
    by (rule mad_identical_overflow)
  obtain k where k: "MAD_SCALE_FACTOR_fp = Finite k" "0 < k"
    using scale_factor_positive by blast
  have sg0: "fmul PosInf MAD_SCALE_FACTOR_fp = PosInf"
    using k(2) by (simp add: k(1))
  show "f_median (calculate_bands_fp vals) = ?P"
    using n by (simp add: calculate_bands_fp_def fv med Let_def)
  show "f_sigma (calculate_bands_fp vals) = PosInf"
    using n by (simp add: calculate_bands_fp_def fv md sg0 Let_def del: fmul.simps)
qed

lemma no_outlier_finite:
  assumes "f_median stats = Finite c" and "f_sigma stats = sigma_floor"
  shows "\<not> is_outlier (Finite c) stats (Finite 2)"
proof -
  obtain s where s: "sigma_floor = Finite s" "0 < s"
    using sigma_floor_positive by blast
  have "0 \<le> 2 * s" using s(2) by simp
  then have "round64 (2 * s) = PosInf \<or> (\<exists>y. round64 (2 * s) = Finite y \<and> 0 \<le> y)"
    by (rule round64_nonneg_cases)
  then have "\<not> flt (round64 (2 * s)) (Finite 0)" by auto
  then show ?thesis
    by (simp add: is_outlier_def deviation_zero fgt_def assms s(1))
qed

lemma no_outlier_overflow:
  assumes "f_median stats = PosInf \<or> f_median stats = NegInf" and "f_sigma stats = PosInf"
  shows "\<not> is_outlier (Finite c) stats (Finite 2)"
  using assms by (auto simp: is_outlier_def deviation_from_infinity fgt_def)

lemma outlier_loop_none:
  "(\<forall>v \<in> set vs. \<not> is_outlier v stats t) \<Longrightarrow> outlier_loop stats t i vs = []"
  by (induction vs arbitrary: i) auto

lemma huge_is_double: "is_double largest_power"
proof -
  have "round_real (2 powr of_int 1023) = 2 powr of_int 1023"
    by (rule round_real_pow2) simp
  moreover have "(2::real) powr of_int 1023 < overflow_bound"
    by (rule below_overflow) simp
  moreover have "0 \<le> (2::real) powr of_int 1023" by (rule powr_ge_zero)
  ultimately have "is_double (2 powr of_int 1023)"
    unfolding is_double_def by (simp only: abs_of_nonneg)
  then show ?thesis by (simp only: of_int_numeral largest_power_def)
qed

lemma huge_sum_overflows: "overflow_bound \<le> \<bar>largest_power + largest_power\<bar>"
proof -
  have "(2::real) powr (1 + 1023) = 2 powr 1 * 2 powr 1023" by (rule powr_add)
  moreover have "(1 + 1023 :: real) = 1024" by simp
  ultimately have "overflow_bound = 2 powr 1 * largest_power"
    by (simp only: overflow_bound_def largest_power_def)
  then have "largest_power + largest_power = overflow_bound" by simp
  then show ?thesis by simp
qed

lemma four_is_double: "is_double 4"
proof -
  have "round_real (2 powr of_int 2) = 2 powr of_int 2"
    by (rule round_real_pow2) simp
  moreover have "(2::real) powr of_int 2 < overflow_bound"
    by (rule below_overflow) simp
  ultimately show ?thesis by (simp add: is_double_def)
qed

text \<open>
  C6, as amended. For a non-empty batch whose values are all the same binary64 number
  \<open>c\<close>:
  \<^item> when the batch has an odd number of values, or \<open>c + c\<close> does not overflow,
    \<open>calculate_bands\<close> yields as sigma the floor \<^verbatim>\<open>0.001\<close>;
  \<^item> when the batch has an even number of values and \<open>c + c\<close> overflows (\<open>\<bar>c\<bar>\<close> is
    \<open>2 ^ 1023\<close> or more), the mean of the two middle values inside \<^verbatim>\<open>np.median\<close> is
    infinite, and sigma is infinite;
  \<^item> the floor is a finite number greater than 0;
  \<^item> with the statistics of the batch, \<open>is_outlier\<close> at threshold 2.0 is false for every
    value of the batch, and \<open>get_outlier_indices\<close> at threshold 2.0 returns no index.
\<close>

theorem identical_values_sigma:
  assumes "vals \<noteq> []" and "\<forall>v \<in> set vals. v = Finite c" and "is_double c"
  shows "(odd (length vals) \<or> \<bar>c + c\<bar> < overflow_bound
            \<longrightarrow> f_sigma (calculate_bands_fp vals) = sigma_floor)
       \<and> (even (length vals) \<and> overflow_bound \<le> \<bar>c + c\<bar>
            \<longrightarrow> f_sigma (calculate_bands_fp vals) = PosInf)
       \<and> (\<exists>s. sigma_floor = Finite s \<and> 0 < s)
       \<and> (\<forall>v \<in> set vals. \<not> is_outlier v (calculate_bands_fp vals) (Finite 2))
       \<and> get_outlier_indices vals (Finite 2) = []"
proof -
  have a: "odd (length vals) \<or> \<bar>c + c\<bar> < overflow_bound
            \<longrightarrow> f_sigma (calculate_bands_fp vals) = sigma_floor"
    using bands_identical_finite(2) [OF assms] by blast
  have b: "even (length vals) \<and> overflow_bound \<le> \<bar>c + c\<bar>
            \<longrightarrow> f_sigma (calculate_bands_fp vals) = PosInf"
    using bands_identical_overflow(2) [OF assms] by blast
  have "\<not> is_outlier (Finite c) (calculate_bands_fp vals) (Finite 2)"
  proof (cases "odd (length vals) \<or> \<bar>c + c\<bar> < overflow_bound")
    case True
    then show ?thesis
      using bands_identical_finite [OF assms] by (intro no_outlier_finite) auto
  next
    case False
    then have "even (length vals)" "overflow_bound \<le> \<bar>c + c\<bar>" by auto
    then show ?thesis
      using bands_identical_overflow [OF assms] by (intro no_outlier_overflow) auto
  qed
  then have no: "\<forall>v \<in> set vals. \<not> is_outlier v (calculate_bands_fp vals) (Finite 2)"
    using assms(2) by auto
  then have "get_outlier_indices vals (Finite 2) = []"
    unfolding get_outlier_indices_def by (rule outlier_loop_none)
  with a b no sigma_floor_positive show ?thesis by blast
qed

text \<open>
  The batch of claim C6 that does not get the floor: two values \<open>2 ^ 1023\<close>, each a
  finite binary64 number. Their sum overflows, the median and the MAD are infinite, and
  sigma is infinite, where the floor is finite.
\<close>

theorem identical_values_counterexample:
  "f_sigma (calculate_bands_fp [Finite largest_power, Finite largest_power]) = PosInf
   \<and> is_double largest_power
   \<and> isfinite sigma_floor"
proof -
  have "f_sigma (calculate_bands_fp [Finite largest_power, Finite largest_power]) = PosInf"
    by (rule bands_identical_overflow(2) [OF _ _ huge_is_double _ huge_sum_overflows])
      simp_all
  moreover obtain s where s: "sigma_floor = Finite s" using sigma_floor_positive by blast
  ultimately show ?thesis using huge_is_double by (simp add: s)
qed

text \<open>
  The amended statement at the batches \<^verbatim>\<open>[4.0, 4.0]\<close> and \<open>[2 ^ 1023, 2 ^ 1023]\<close>.
\<close>

theorem identical_values_sigma_witness:
  "f_sigma (calculate_bands_fp [Finite 4, Finite 4]) = sigma_floor
   \<and> f_sigma (calculate_bands_fp [Finite largest_power, Finite largest_power]) = PosInf
   \<and> \<not> is_outlier (Finite 4) (calculate_bands_fp [Finite 4, Finite 4]) (Finite 2)
   \<and> get_outlier_indices [Finite 4, Finite 4] (Finite 2) = []
   \<and> get_outlier_indices [Finite largest_power, Finite largest_power] (Finite 2) = []"
proof -
  have small: "\<bar>4 + 4 :: real\<bar> < overflow_bound"
    using below_overflow [of 3] by simp
  have h1: "[Finite 4, Finite 4] \<noteq> []" by simp
  have h2: "\<forall>v \<in> set [Finite 4, Finite 4]. v = Finite 4" by simp
  have g1: "[Finite largest_power, Finite largest_power] \<noteq> []" by simp
  have g2: "\<forall>v \<in> set [Finite largest_power, Finite largest_power]. v = Finite largest_power"
    by simp
  have e: "even (length [Finite largest_power, Finite largest_power])" by simp
  note a = identical_values_sigma [OF h1 h2 four_is_double]
  note b = identical_values_sigma [OF g1 g2 huge_is_double]
  have "f_sigma (calculate_bands_fp [Finite 4, Finite 4]) = sigma_floor"
    using a small by blast
  moreover have
    "f_sigma (calculate_bands_fp [Finite largest_power, Finite largest_power]) = PosInf"
    using b e huge_sum_overflows by blast
  moreover have "\<not> is_outlier (Finite 4) (calculate_bands_fp [Finite 4, Finite 4]) (Finite 2)"
    using a by simp
  moreover have "get_outlier_indices [Finite 4, Finite 4] (Finite 2) = []"
    using a by blast
  moreover have
    "get_outlier_indices [Finite largest_power, Finite largest_power] (Finite 2) = []"
    using b by blast
  ultimately show ?thesis by blast
qed

section \<open>Eccentricity\<close>























lemma sqrt_16_25: "sqrt (16 / 25) = 4 / 5"
  by (rule real_sqrt_unique) (simp_all add: power2_eq_square)

section \<open>Results without the flag\<close>

lemma flagless_fwhm_values:
  "(\<forall>p \<in> set ps. fit_success p = None) \<Longrightarrow>
   fwhm_values ps = map (\<lambda>p. sqrt (fwhm_x p * fwhm_y p)) ps"
  by (induction ps) (auto simp: get_fit_success_def)

lemma flagless_ecc_values:
  "(\<forall>p \<in> set ps. fit_success p = None \<and> 0 < fwhm_x p \<and> 0 < fwhm_y p) \<Longrightarrow>
   ecc_values ps =
     map (\<lambda>p. star_eccentricity (max (fwhm_x p) (fwhm_y p)) (min (fwhm_x p) (fwhm_y p))) ps"
  by (induction ps) (auto simp: get_fit_success_def Let_def)

lemma flagless_filter:
  "(\<forall>p \<in> set ps. fit_success p = None) \<Longrightarrow> filter get_fit_success ps = ps"
  by (induction ps) (auto simp: get_fit_success_def)

lemma star_count_length:
  "calculate_star_count ps = length (filter get_fit_success ps)"
proof -
  have "sum_list (map (\<lambda>star. 1) xs) = length xs" for xs :: "psf_result list"
    by (induction xs) auto
  then show ?thesis
    by (simp add: calculate_star_count_def)
qed

lemma flagless_star_count:
  "(\<forall>p \<in> set ps. fit_success p = None) \<Longrightarrow> calculate_star_count ps = length ps"
  by (simp add: star_count_length flagless_filter)

lemma flagless_fwhm_values_flag:
  "(\<forall>p \<in> set ps. fit_success p = None) \<Longrightarrow>
   fwhm_values (map (\<lambda>p. p\<lparr>fit_success := Some True\<rparr>) ps) = fwhm_values ps"
  by (induction ps) (auto simp: get_fit_success_def)

lemma flagless_ecc_values_flag:
  "(\<forall>p \<in> set ps. fit_success p = None) \<Longrightarrow>
   ecc_values (map (\<lambda>p. p\<lparr>fit_success := Some True\<rparr>) ps) = ecc_values ps"
  by (induction ps) (auto simp: get_fit_success_def Let_def)

lemma flagless_amplitudes_flag:
  "(\<forall>p \<in> set ps. fit_success p = None) \<Longrightarrow>
   amplitudes (map (\<lambda>p. p\<lparr>fit_success := Some True\<rparr>) ps) = amplitudes ps"
  by (induction ps) (auto simp: get_fit_success_def get_amplitude_def)

lemma flagged_filter:
  "filter get_fit_success (map (\<lambda>p. p\<lparr>fit_success := Some True\<rparr>) ps)
   = map (\<lambda>p. p\<lparr>fit_success := Some True\<rparr>) ps"
  by (induction ps) (auto simp: get_fit_success_def)

lemma flagged_star_count:
  "calculate_star_count (map (\<lambda>p. p\<lparr>fit_success := Some True\<rparr>) ps) = length ps"
  unfolding star_count_length flagged_filter by simp

text \<open>
  C10. A PSF result without the key \<^verbatim>\<open>fit_success\<close> counts as a successful fit in
  every aggregation. For every list of such entries with positive widths:
  \<open>calculate_star_count\<close> is the length of the list; \<open>calculate_fwhm\<close> and
  \<open>calculate_eccentricity\<close> are the medians over all entries; and FWHM, eccentricity,
  SNR and star count are what they are for the same entries with the flag set to true.
\<close>

theorem flagless_entries_count_as_fitted:
  assumes "\<forall>p \<in> set ps. fit_success p = None \<and> 0 < fwhm_x p \<and> 0 < fwhm_y p"
  shows "calculate_star_count ps = length ps
       \<and> calculate_fwhm ps =
           (if ps = [] then 0 else np_median (map (\<lambda>p. sqrt (fwhm_x p * fwhm_y p)) ps))
       \<and> calculate_eccentricity ps =
           (if ps = [] then 0
            else np_median (map (\<lambda>p. star_eccentricity (max (fwhm_x p) (fwhm_y p))
                                                       (min (fwhm_x p) (fwhm_y p))) ps))
       \<and> calculate_fwhm ps = calculate_fwhm (map (\<lambda>p. p\<lparr>fit_success := Some True\<rparr>) ps)
       \<and> calculate_eccentricity ps =
           calculate_eccentricity (map (\<lambda>p. p\<lparr>fit_success := Some True\<rparr>) ps)
       \<and> calculate_snr img ps = calculate_snr img (map (\<lambda>p. p\<lparr>fit_success := Some True\<rparr>) ps)
       \<and> calculate_star_count ps =
           calculate_star_count (map (\<lambda>p. p\<lparr>fit_success := Some True\<rparr>) ps)"
proof -
  have f: "\<forall>p \<in> set ps. fit_success p = None" using assms by simp
  have c1: "calculate_star_count ps = length ps"
    using f by (rule flagless_star_count)
  have c2: "calculate_fwhm ps =
           (if ps = [] then 0 else np_median (map (\<lambda>p. sqrt (fwhm_x p * fwhm_y p)) ps))"
    by (simp add: calculate_fwhm_def flagless_fwhm_values [OF f])
  have c3: "calculate_eccentricity ps =
           (if ps = [] then 0
            else np_median (map (\<lambda>p. star_eccentricity (max (fwhm_x p) (fwhm_y p))
                                                       (min (fwhm_x p) (fwhm_y p))) ps))"
    by (simp add: calculate_eccentricity_def flagless_ecc_values [OF assms])
  have c4: "calculate_fwhm ps = calculate_fwhm (map (\<lambda>p. p\<lparr>fit_success := Some True\<rparr>) ps)"
    by (simp add: calculate_fwhm_def flagless_fwhm_values_flag [OF f])
  have c5: "calculate_eccentricity ps =
           calculate_eccentricity (map (\<lambda>p. p\<lparr>fit_success := Some True\<rparr>) ps)"
    by (simp add: calculate_eccentricity_def flagless_ecc_values_flag [OF f])
  have c6: "calculate_snr img ps = calculate_snr img (map (\<lambda>p. p\<lparr>fit_success := Some True\<rparr>) ps)"
    by (simp add: calculate_snr_def flagless_amplitudes_flag [OF f])
  have c7: "calculate_star_count ps =
           calculate_star_count (map (\<lambda>p. p\<lparr>fit_success := Some True\<rparr>) ps)"
    using c1 by (simp add: flagged_star_count)
  from c1 c2 c3 c4 c5 c6 c7 show ?thesis by blast
qed

theorem flagless_entries_count_as_fitted_witness:
  "calculate_star_count
     [\<lparr>psf_x = 10, psf_y = 12, fwhm_x = 3, fwhm_y = 5, amplitude = Some 100, fit_success = None\<rparr>,
      \<lparr>psf_x = 20, psf_y = 22, fwhm_x = 4, fwhm_y = 4, amplitude = None, fit_success = None\<rparr>]
   = 2
   \<and> calculate_eccentricity
     [\<lparr>psf_x = 10, psf_y = 12, fwhm_x = 3, fwhm_y = 5, amplitude = Some 100, fit_success = None\<rparr>,
      \<lparr>psf_x = 20, psf_y = 22, fwhm_x = 4, fwhm_y = 4, amplitude = None, fit_success = None\<rparr>]
   = calculate_eccentricity
     [\<lparr>psf_x = 10, psf_y = 12, fwhm_x = 3, fwhm_y = 5, amplitude = Some 100, fit_success = Some True\<rparr>,
      \<lparr>psf_x = 20, psf_y = 22, fwhm_x = 4, fwhm_y = 4, amplitude = None, fit_success = Some True\<rparr>]
   \<and> calculate_eccentricity
     [\<lparr>psf_x = 10, psf_y = 12, fwhm_x = 3, fwhm_y = 5, amplitude = Some 100, fit_success = None\<rparr>,
      \<lparr>psf_x = 20, psf_y = 22, fwhm_x = 4, fwhm_y = 4, amplitude = None, fit_success = None\<rparr>]
   = 2 / 5"
proof -
  let ?a = "\<lparr>psf_x = 10, psf_y = 12, fwhm_x = 3, fwhm_y = 5, amplitude = Some 100, fit_success = None\<rparr>"
  let ?b = "\<lparr>psf_x = 20, psf_y = 22, fwhm_x = 4, fwhm_y = 4, amplitude = None, fit_success = None\<rparr>"
  have h: "\<forall>p \<in> set [?a, ?b]. fit_success p = None \<and> 0 < fwhm_x p \<and> 0 < fwhm_y p"
    by simp
  have v: "calculate_eccentricity [?a, ?b] = 2 / 5"
    by (simp add: calculate_eccentricity_def np_median_def get_fit_success_def
        star_eccentricity_def ratio_sq_def Let_def power2_eq_square sqrt_16_25)
  show ?thesis
    using v flagless_entries_count_as_fitted [OF h, of "[[0]]"] by simp
qed

section \<open>Imaging parameters of a header\<close>

lemma py_float_error_class:
  "py_float parse v = Inl e \<Longrightarrow> exn_class_of e = ValueError \<or> exn_class_of e = TypeError"
  by (cases v) (auto split: option.splits)

lemma first_float_usable:
  "first_float parse hdr keys = Inr (first_usable parse hdr keys)"
proof (induction keys)
  case Nil
  then show ?case by (simp add: first_usable_def)
next
  case (Cons key keys)
  show ?case
  proof (cases "hdr key")
    case None
    then show ?thesis
      using Cons by (simp add: first_usable_def usable_def)
  next
    case (Some v)
    show ?thesis
    proof (cases "py_float parse v")
      case (Inl e)
      then show ?thesis
        using Cons Some py_float_error_class [OF Inl]
        by (simp add: first_usable_def usable_def)
    next
      case (Inr x)
      then show ?thesis
        using Cons Some by (simp add: first_usable_def usable_def)
    qed
  qed
qed

text \<open>
  C4, as amended. Reading the imaging parameters from a header never raises. Pixel size,
  focal length and aperture are each the \<^verbatim>\<open>float\<close> of the first key of their ordered
  list that is in the header with a truthy value (not 0, not empty) that \<^verbatim>\<open>float\<close>
  accepts, and null when there is no such key. The image scale is
  \<^verbatim>\<open>(pixel_size / focal_length) * 206.265\<close> exactly when both are non-null, the pixel
  size is not 0 and the focal length is greater than 0; otherwise it is null.
\<close>

theorem imaging_params_of_header:
  "\<exists>p. params_of_header parse hdr = Inr p
     \<and> pixel_size_um p = first_usable parse hdr pixel_size_keys
     \<and> focal_length_mm p = first_usable parse hdr focal_length_keys
     \<and> aperture_mm p = first_usable parse hdr aperture_keys
     \<and> image_scale p =
         (case pixel_size_um p of
            None \<Rightarrow> None
          | Some ps \<Rightarrow>
              (case focal_length_mm p of
                 None \<Rightarrow> None
               | Some fl \<Rightarrow>
                   if ps \<noteq> 0 \<and> 0 < fl then Some ((ps / fl) * (206265 / 1000)) else None))"
  by (auto simp: params_of_header_def first_float_usable derive_image_scale_def
      split: option.splits)

lemmas header_eval =
  params_of_header_def pixel_size_keys_def focal_length_keys_def aperture_keys_def
  derive_image_scale_def

text \<open>
  The claim as stated fails on a header whose card \<^verbatim>\<open>XPIXSZ = 0\<close> is present and
  parseable: the code skips the falsy value, so the pixel size and the image scale are
  null, where the first present and parseable value is 0.0 and the focal length 1000 > 0.
\<close>

theorem imaging_params_counterexample:
  "params_of_header Map.empty [''XPIXSZ'' \<mapsto> HInt 0, ''FOCALLEN'' \<mapsto> HInt 1000]
     = Inr \<lparr>pixel_size_um = None, focal_length_mm = Some 1000, aperture_mm = None,
            image_scale = None\<rparr>
   \<and> spec_first_parseable Map.empty [''XPIXSZ'' \<mapsto> HInt 0, ''FOCALLEN'' \<mapsto> HInt 1000]
        pixel_size_keys = Some 0
   \<and> spec_first_parseable Map.empty [''XPIXSZ'' \<mapsto> HInt 0, ''FOCALLEN'' \<mapsto> HInt 1000]
        focal_length_keys = Some 1000
   \<and> spec_image_scale (Some 0) (Some 1000) = Some 0"
  by (simp add: header_eval spec_image_scale_def)

theorem imaging_params_of_header_witness:
  "params_of_header [''1000'' \<mapsto> 1000]
     [''PIXSIZE'' \<mapsto> HFloat (376 / 100), ''FOCALLEN'' \<mapsto> HStr ''1000'', ''APTDIA'' \<mapsto> HStr ''n/a'']
   = Inr \<lparr>pixel_size_um = Some (376 / 100), focal_length_mm = Some 1000, aperture_mm = None,
          image_scale = Some ((376 / 100 / 1000) * (206265 / 1000))\<rparr>
   \<and> first_usable [''1000'' \<mapsto> 1000]
     [''PIXSIZE'' \<mapsto> HFloat (376 / 100), ''FOCALLEN'' \<mapsto> HStr ''1000'', ''APTDIA'' \<mapsto> HStr ''n/a'']
     aperture_keys = None"
proof -
  let ?parse = "[''1000'' \<mapsto> 1000::real]"
  let ?hdr = "[''PIXSIZE'' \<mapsto> HFloat (376 / 100), ''FOCALLEN'' \<mapsto> HStr ''1000'',
               ''APTDIA'' \<mapsto> HStr ''n/a'']"
  have v: "params_of_header ?parse ?hdr
     = Inr \<lparr>pixel_size_um = Some (376 / 100), focal_length_mm = Some 1000, aperture_mm = None,
            image_scale = Some ((376 / 100 / 1000) * (206265 / 1000))\<rparr>"
    by (simp add: header_eval)
  show ?thesis
    using v imaging_params_of_header [of ?parse ?hdr] by auto
qed

section \<open>PSF fitting\<close>

lemma star_cutout_length:
  assumes "\<not> window_exceeds det img star"
  shows "length (star_cutout det img star) = 2 * (box_size det div 2) + 1"
proof -
  let ?h = "int (box_size det div 2)"
  let ?y = "py_round (cand_y star)"
  have lo: "0 \<le> ?y - ?h" and hi: "?y + ?h < int (length img)"
    using assms by (auto simp: window_exceeds_def Let_def shape0_def)
  have "nat (?y + ?h + 1) - nat (?y - ?h) = 2 * (box_size det div 2) + 1"
    using lo by linarith
  moreover have "nat (?y + ?h + 1) \<le> length img"
    using lo hi by linarith
  ultimately have "min (length img - nat (?y - ?h)) (nat (?y + ?h + 1) - nat (?y - ?h))
                 = 2 * (box_size det div 2) + 1"
    by linarith
  then show ?thesis
    by (simp add: star_cutout_def Let_def min.commute)
qed

lemma StarDetector_box_odd: "box_size (StarDetector fe ts ms bs) mod 2 = 1"
  by (simp add: StarDetector_def) presburger

lemma fit_rejected_iff:
  assumes "\<not> window_exceeds det img star" and "box_size det mod 2 = 1"
  shows "fit_gaussian_2d w det (star_cutout det img star) = None
         \<longleftrightarrow> spec_fit_rejected w det img star"
proof -
  have "2 * (box_size det div 2) + 1 = box_size det"
    using assms(2) by presburger
  then have "length (star_cutout det img star) = box_size det"
    using star_cutout_length [OF assms(1)] by simp
  then show ?thesis
    by (auto simp: fit_gaussian_2d_def spec_fit_rejected_def Let_def split: sum.splits)
qed

lemma fit_psf_entries:
  assumes "box_size det mod 2 = 1"
  shows "list_all2
     (\<lambda>star r. psf_x r = cand_x star \<and> psf_y r = cand_y star
        \<and> fit_success r = Some (\<not> spec_fit_rejected w det img star)
        \<and> (spec_fit_rejected w det img star \<longrightarrow>
             r = \<lparr>psf_x = cand_x star, psf_y = cand_y star,
                  fwhm_x = fwhm_estimate det, fwhm_y = fwhm_estimate det,
                  amplitude = Some (cand_peak star), fit_success = Some False\<rparr>))
     (filter (\<lambda>star. \<not> window_exceeds det img star) stars)
     (fit_psf w det img stars)"
proof (induction stars)
  case Nil
  then show ?case by simp
next
  case (Cons star stars)
  show ?case
  proof (cases "window_exceeds det img star")
    case True
    then show ?thesis using Cons by simp
  next
    case False
    note iff = fit_rejected_iff [OF False assms, of w]
    show ?thesis
    proof (cases "fit_gaussian_2d w det (star_cutout det img star)")
      case None
      then have "spec_fit_rejected w det img star" using iff by simp
      then show ?thesis using Cons False None by simp
    next
      case (Some fit_result)
      then have "\<not> spec_fit_rejected w det img star" using iff by simp
      then show ?thesis using Cons False Some by simp
    qed
  qed
qed

text \<open>
  C8. For every image and list of candidates, \<open>fit_psf\<close> of a detector returns one
  entry for each candidate whose window lies inside the image, in the order of the
  candidates, and none for the others; the entry carries the position of its candidate;
  its flag says whether the fit was accepted; and when the fit fails or yields
  \<^verbatim>\<open>fwhm_x\<close> or \<^verbatim>\<open>fwhm_y\<close> below 0.5 or above the box size, the entry has both
  widths equal to the expected FWHM, the peak of the candidate as amplitude and
  \<^verbatim>\<open>fit_success = false\<close>.
\<close>

theorem fit_psf_skips_and_falls_back:
  "list_all2
     (\<lambda>star r. psf_x r = cand_x star \<and> psf_y r = cand_y star
        \<and> fit_success r = Some (\<not> spec_fit_rejected w (StarDetector fe ts ms bs) img star)
        \<and> (spec_fit_rejected w (StarDetector fe ts ms bs) img star \<longrightarrow>
             r = \<lparr>psf_x = cand_x star, psf_y = cand_y star, fwhm_x = fe, fwhm_y = fe,
                  amplitude = Some (cand_peak star), fit_success = Some False\<rparr>))
     (filter (\<lambda>star. \<not> window_exceeds (StarDetector fe ts ms bs) img star) stars)
     (fit_psf w (StarDetector fe ts ms bs) img stars)"
proof -
  have fe: "fwhm_estimate (StarDetector fe ts ms bs) = fe"
    by (simp add: StarDetector_def)
  show ?thesis
    using fit_psf_entries [OF StarDetector_box_odd, of w fe ts ms bs img stars]
    unfolding fe .
qed

theorem fit_psf_skips_and_falls_back_witness:
  "fit_psf wide_fit_world (StarDetector 5 5 500 2) [[0, 0, 0], [0, 9, 0], [0, 0, 0]]
     [\<lparr>cand_x = 12 / 10, cand_y = 8 / 10, cand_flux = 9, cand_peak = 9\<rparr>,
      \<lparr>cand_x = 2 / 10, cand_y = 1, cand_flux = 3, cand_peak = 1\<rparr>,
      \<lparr>cand_x = 1, cand_y = 1, cand_flux = 2, cand_peak = 7\<rparr>]
   = [\<lparr>psf_x = 12 / 10, psf_y = 8 / 10, fwhm_x = 5, fwhm_y = 5, amplitude = Some 9,
       fit_success = Some False\<rparr>,
      \<lparr>psf_x = 1, psf_y = 1, fwhm_x = 5, fwhm_y = 5, amplitude = Some 7,
       fit_success = Some False\<rparr>]"
proof -
  let ?det = "StarDetector 5 5 500 2"
  let ?img = "[[0, 0, 0], [0, 9, 0], [0, 0, 0::real]]"
  let ?a = "\<lparr>cand_x = 12 / 10, cand_y = 8 / 10, cand_flux = 9, cand_peak = 9\<rparr>"
  let ?b = "\<lparr>cand_x = 2 / 10, cand_y = 1, cand_flux = 3, cand_peak = 1\<rparr>"
  let ?c = "\<lparr>cand_x = 1, cand_y = 1, cand_flux = 2, cand_peak = 7\<rparr>"
  have wa: "\<not> window_exceeds ?det ?img ?a"
    by (simp add: window_exceeds_def StarDetector_def py_round_def shape0_def shape1_def Let_def)
  have wb: "window_exceeds ?det ?img ?b"
    by (simp add: window_exceeds_def StarDetector_def py_round_def shape0_def shape1_def Let_def)
  have wc: "\<not> window_exceeds ?det ?img ?c"
    by (simp add: window_exceeds_def StarDetector_def py_round_def shape0_def shape1_def Let_def)
  have ra: "spec_fit_rejected wide_fit_world ?det ?img ?a"
    by (simp add: spec_fit_rejected_def wide_fit_world_def StarDetector_def)
  have rc: "spec_fit_rejected wide_fit_world ?det ?img ?c"
    by (simp add: spec_fit_rejected_def wide_fit_world_def StarDetector_def)
  have f: "filter (\<lambda>star. \<not> window_exceeds ?det ?img star) [?a, ?b, ?c] = [?a, ?c]"
    using wa wb wc by simp
  show ?thesis
    using fit_psf_skips_and_falls_back [of wide_fit_world 5 5 500 2 ?img "[?a, ?b, ?c]"] ra rc
    unfolding f by (auto simp: list_all2_Cons1)
qed

section \<open>Ranking of the candidates\<close>

lemma median_two_peak: "np_median (concat two_peak_frame) = 0"
  by (simp add: two_peak_frame_def np_median_def)

lemma star_two_peak:
  "star_of_region two_peak_frame 0 [(0, 0)] = \<lparr>cand_x = 0, cand_y = 0, cand_flux = 1, cand_peak = 1\<rparr>"
  "star_of_region two_peak_frame 0 [(2, 2)] = \<lparr>cand_x = 2, cand_y = 2, cand_flux = 10, cand_peak = 10\<rparr>"
  by (simp_all add: star_of_region_def two_peak_frame_def np_mean_def Let_def)

text \<open>
  C3, at an input where the code departs from it. Without photutils, with
  \<^verbatim>\<open>max_stars = 1\<close>, on a frame whose first labelled peak has flux 1 and whose second
  has flux 10, \<open>detect_stars\<close> returns the star of flux 1: the loop of
  \<^verbatim>\<open>_detect_simple\<close> stops after \<open>max_stars\<close> regions, before the stars are ranked.
  With \<^verbatim>\<open>max_stars = 2\<close> both stars are returned, the one of flux 10 first, and
  \<^verbatim>\<open>_detect_with_photutils\<close> returns the star of flux 10 for the same two sources.
\<close>

theorem simple_detection_truncates_before_ranking:
  "detect_stars two_peak_world (StarDetector 5 5 1 15) two_peak_frame
     = Inr [\<lparr>cand_x = 0, cand_y = 0, cand_flux = 1, cand_peak = 1\<rparr>]
   \<and> detect_stars two_peak_world (StarDetector 5 5 2 15) two_peak_frame
     = Inr [\<lparr>cand_x = 2, cand_y = 2, cand_flux = 10, cand_peak = 10\<rparr>,
            \<lparr>cand_x = 0, cand_y = 0, cand_flux = 1, cand_peak = 1\<rparr>]
   \<and> detect_with_photutils two_peak_world (StarDetector 5 5 1 15) two_peak_frame
     = Inr [\<lparr>cand_x = 2, cand_y = 2, cand_flux = 10, cand_peak = 10\<rparr>]"
proof -
  have w: "photutils_available two_peak_world = False"
    "label_peaks two_peak_world = (\<lambda>det img. Inr [[(0, 0)], [(2, 2)]])"
    "daofind two_peak_world = (\<lambda>det img.
         Inr (Some [\<lparr>xcentroid = 0, ycentroid = 0, src_flux = 1, src_peak = 1\<rparr>,
                    \<lparr>xcentroid = 2, ycentroid = 2, src_flux = 10, src_peak = 10\<rparr>]))"
    by (simp_all add: two_peak_world_def)
  have a: "detect_simple two_peak_world (StarDetector 5 5 1 15) two_peak_frame
     = Inr [\<lparr>cand_x = 0, cand_y = 0, cand_flux = 1, cand_peak = 1\<rparr>]"
    by (simp add: detect_simple_def w median_two_peak StarDetector_def star_two_peak
        py_take_def Let_def)
  have b: "detect_simple two_peak_world (StarDetector 5 5 2 15) two_peak_frame
     = Inr [\<lparr>cand_x = 2, cand_y = 2, cand_flux = 10, cand_peak = 10\<rparr>,
            \<lparr>cand_x = 0, cand_y = 0, cand_flux = 1, cand_peak = 1\<rparr>]"
    by (simp add: detect_simple_def w median_two_peak StarDetector_def star_two_peak
        py_take_def Let_def)
  have c: "detect_with_photutils two_peak_world (StarDetector 5 5 1 15) two_peak_frame
     = Inr [\<lparr>cand_x = 2, cand_y = 2, cand_flux = 10, cand_peak = 10\<rparr>]"
    by (simp add: detect_with_photutils_def w StarDetector_def star_of_source_def
        py_take_def Let_def)
  show ?thesis
    using a b c by (simp add: detect_stars_def w)
qed

lemma py_take_length: "0 \<le> k \<Longrightarrow> int (length (py_take k xs)) \<le> k"
  by (simp add: py_take_def)

lemma py_take_sorted:
  "sorted (map f xs) \<Longrightarrow> sorted (map f (py_take k xs))"
  by (simp add: py_take_def take_map [symmetric] sorted_wrt_take)

lemma detect_simple_ordered:
  assumes "detect_simple w det img = Inr stars" and "0 \<le> max_stars det"
  shows "sorted (map (\<lambda>s. - cand_flux s) stars) \<and> int (length stars) \<le> max_stars det"
proof -
  obtain regions where "label_peaks w det img = Inr regions"
    using assms(1) by (auto simp: detect_simple_def split: sum.splits)
  then obtain xs where "stars = py_take (max_stars det) (sort_key (\<lambda>s. - cand_flux s) xs)"
    using assms(1) by (auto simp: detect_simple_def Let_def)
  then show ?thesis
    using assms(2) by (simp add: py_take_length py_take_sorted)
qed

section \<open>Batches\<close>

lemma analyze_sequential_paths:
  "map filepath (analyze_sequential w a files scale) = map path files"
proof (induction files)
  case Nil
  then show ?case by simp
next
  case (Cons f files)
  have "filepath (case analyze_file w a (path f) scale of
                    Inr result \<Rightarrow> result
                  | Inl e \<Rightarrow> \<lparr>filepath = path f, result_filename = filename f,
                       metrics = None, star_count_detected = None, star_count_fitted = None,
                       error = Some (str_of_exn e)\<rparr>) = path f"
    by (auto simp: analyze_file_def Let_def split: sum.splits if_splits)
  then show ?case using Cons by simp
qed

lemma analyze_single_file_path:
  "filepath (analyze_single_file w (p, fe, ts, ms, scale)) = p"
  by (simp add: analyze_single_file_def Let_def split: sum.splits)

lemma analyze_parallel_paths:
  "map filepath (analyze_parallel w a files scale) = map path files"
  by (simp add: analyze_parallel_def Let_def analyze_single_file_path comp_def)

lemma analyze_files_header_error:
  assumes "files \<noteq> []" and "get_imaging_params w (path (files ! 0)) = Inl e"
  shows "analyze_files w a files use_parallel = Inl e"
  using assms by (simp add: analyze_files_def Let_def)

lemma analyze_files_contained:
  assumes "get_imaging_params w (path (files ! 0)) = Inr ip"
  shows "\<exists>br. analyze_files w a files use_parallel = Inr br
            \<and> total_files br = length files
            \<and> map filepath (results br) = map path files"
  using assms
  by (simp add: analyze_files_def Let_def analyze_sequential_paths analyze_parallel_paths)

lemma analyze_file_with_scale:
  assumes "filename f = path_name (path f)"
  shows "(case analyze_file w a (path f) (Some s) of
            Inr result \<Rightarrow> result
          | Inl e \<Rightarrow> \<lparr>filepath = path f, result_filename = filename f,
               metrics = None, star_count_detected = None, star_count_fitted = None,
               error = Some (str_of_exn e)\<rparr>)
         = analyze_single_file w
             (path f, an_fwhm_estimate a, an_threshold_sigma a, an_max_stars a, Some s)"
  using assms
  by (simp add: analyze_file_def analyze_single_file_def star_detector_of_def Let_def
      split: sum.splits)

lemma sequential_eq_parallel_with_scale:
  assumes "\<forall>f \<in> set files. filename f = path_name (path f)"
  shows "analyze_sequential w a files (Some s) = analyze_parallel w a files (Some s)"
  using assms
proof (induction files)
  case Nil
  then show ?case by (simp add: analyze_parallel_def)
next
  case (Cons f files)
  then have "analyze_sequential w a files (Some s) = analyze_parallel w a files (Some s)"
    by simp
  moreover have "filename f = path_name (path f)" using Cons.prems by simp
  ultimately show ?case
    using analyze_file_with_scale [of f w a s]
    by (simp add: analyze_parallel_def Let_def)
qed

lemmas batch_eval =
  batch_world_def two_workers_def corrupt_file_def plain_file_def scaled_file_def
  analyze_files_def analyze_parallel_def analyze_single_file_def analyze_file_def
  get_imaging_params_def get_header_def load_file_def header_eval Let_def

lemma gip_corrupt:
  "get_imaging_params batch_world ''/data/corrupt.fits'' = Inl (Raise OSError ''Empty or corrupt FITS file'')"
  by (simp add: batch_eval)

lemma gip_plain:
  "get_imaging_params batch_world ''/data/plain.fits''
   = Inr \<lparr>pixel_size_um = None, focal_length_mm = None, aperture_mm = None, image_scale = None\<rparr>"
  by (simp add: batch_eval)

lemma gip_scaled:
  "get_imaging_params batch_world ''/data/scaled.fits''
   = Inr \<lparr>pixel_size_um = Some 4, focal_length_mm = Some 1000, aperture_mm = None, image_scale = Some (82506 / 100000)\<rparr>"
  by (simp add: batch_eval)

lemma blank_frame_shape: "shape0 blank_frame = 15" "shape1 blank_frame = 15"
  by (simp_all add: blank_frame_def shape0_def shape1_def eval_nat_numeral)

lemma blank_frame_cutout:
  "length (star_cutout (StarDetector 5 5 500 15) blank_frame
            \<lparr>cand_x = 7, cand_y = 7, cand_flux = 100, cand_peak = 50\<rparr>) = 15"
  by (simp add: blank_frame_def StarDetector_def star_cutout_def py_round_def Let_def)

lemma fit_blank:
  "fit_psf batch_world (StarDetector 5 5 500 15) blank_frame
     [\<lparr>cand_x = 7, cand_y = 7, cand_flux = 100, cand_peak = 50\<rparr>]
   = [\<lparr>psf_x = 7, psf_y = 7, fwhm_x = 471 / 100, fwhm_y = 471 / 100, amplitude = Some 40, fit_success = Some True\<rparr>]"
  by (simp add: blank_frame_cutout fit_gaussian_2d_def window_exceeds_def blank_frame_shape
      Let_def)
    (simp add: batch_world_def StarDetector_def py_round_def Let_def)

lemma detect_blank:
  "detect_stars batch_world (StarDetector 5 5 500 15) blank_frame
   = Inr [\<lparr>cand_x = 7, cand_y = 7, cand_flux = 100, cand_peak = 50\<rparr>]"
  by (simp add: batch_world_def detect_stars_def detect_with_photutils_def StarDetector_def
      star_of_source_def Let_def)

lemma fwhm_blank:
  "calculate_fwhm [\<lparr>psf_x = 7, psf_y = 7, fwhm_x = 471 / 100, fwhm_y = 471 / 100, amplitude = Some 40, fit_success = Some True\<rparr>] = 471 / 100"
proof -
  have "sqrt (221841 / 10000) = 471 / 100"
    by (rule real_sqrt_unique) (simp_all add: power2_eq_square)
  then show ?thesis
    by (simp add: calculate_fwhm_def get_fit_success_def np_median_def)
qed



lemma load_batch:
  "load_file batch_world ''/data/plain.fits'' = Inr blank_frame"
  "load_file batch_world ''/data/scaled.fits'' = Inr blank_frame"
  "load_file batch_world ''/data/corrupt.fits'' = Inl (Raise OSError ''Empty or corrupt FITS file'')"
  by (simp_all add: load_file_def batch_world_def)

lemma fwhm_arcsec_calculate_all:
  "fwhm_arcsec (calculate_all img ps scale) =
     (case scale of None \<Rightarrow> None
      | Some s \<Rightarrow> if s = 0 then None else Some (calculate_fwhm ps * s))"
  by (simp add: calculate_all_def Let_def)

lemma detector_two_workers: "star_detector_of two_workers = StarDetector 5 5 500 15"
  by (simp add: star_detector_of_def two_workers_def)

lemma seq_plain:
  "analyze_file batch_world two_workers ''/data/plain.fits'' None
   = Inr \<lparr>filepath = ''/data/plain.fits'', result_filename = ''plain.fits'',
       metrics = Some (calculate_all blank_frame
          [\<lparr>psf_x = 7, psf_y = 7, fwhm_x = 471 / 100, fwhm_y = 471 / 100, amplitude = Some 40, fit_success = Some True\<rparr>] None),
       star_count_detected = Some 1, star_count_fitted = Some 1, error = None\<rparr>"
  by (simp add: analyze_file_def load_batch gip_plain detector_two_workers detect_blank
      fit_blank path_name_def Let_def del: fit_psf.simps)

lemma seq_scaled:
  "analyze_file batch_world two_workers ''/data/scaled.fits'' None
   = Inr \<lparr>filepath = ''/data/scaled.fits'', result_filename = ''scaled.fits'',
       metrics = Some (calculate_all blank_frame
          [\<lparr>psf_x = 7, psf_y = 7, fwhm_x = 471 / 100, fwhm_y = 471 / 100, amplitude = Some 40, fit_success = Some True\<rparr>] (Some (82506 / 100000))),
       star_count_detected = Some 1, star_count_fitted = Some 1, error = None\<rparr>"
  by (simp add: analyze_file_def load_batch gip_scaled detector_two_workers detect_blank
      fit_blank path_name_def Let_def del: fit_psf.simps)

lemma par_any:
  "p = ''/data/plain.fits'' \<or> p = ''/data/scaled.fits'' \<Longrightarrow>
   analyze_single_file batch_world (p, 5, 5, 500, None)
   = \<lparr>filepath = p, result_filename = path_name p,
       metrics = Some (calculate_all blank_frame
          [\<lparr>psf_x = 7, psf_y = 7, fwhm_x = 471 / 100, fwhm_y = 471 / 100, amplitude = Some 40, fit_success = Some True\<rparr>] None),
       star_count_detected = Some 1, star_count_fitted = Some 1, error = None\<rparr>"
  by (auto simp add: analyze_single_file_def load_batch detect_blank fit_blank Let_def
      simp del: fit_psf.simps)

lemma two_workers_fields:
  "an_fwhm_estimate two_workers = 5" "an_threshold_sigma two_workers = 5"
  "an_max_stars two_workers = 500" "num_workers two_workers = 2"
  by (simp_all add: two_workers_def)

lemma mixed_headers_eval:
  "map (\<lambda>r. map_option fwhm_arcsec (metrics r))
       (analyze_sequential batch_world two_workers [plain_file, scaled_file] None)
     = [Some None, Some (Some (471 / 100 * (82506 / 100000)))]
   \<and> map (\<lambda>r. map_option fwhm_arcsec (metrics r))
       (analyze_parallel batch_world two_workers [plain_file, scaled_file] None)
     = [Some None, Some None]"
  by (simp add: plain_file_def scaled_file_def seq_plain seq_scaled analyze_parallel_def
      two_workers_fields par_any fwhm_arcsec_calculate_all fwhm_blank)

text \<open>
  C2, at an input where the code departs from it. In a batch whose first file has no
  optical cards in its header and whose second file has them, the sequential run reads
  the scale of the second file from that file's own header and reports its FWHM in
  arcseconds, and the parallel run reports none: the results of the same file differ.
\<close>

theorem sequential_and_parallel_differ:
  "(case analyze_files batch_world two_workers [plain_file, scaled_file] False of
      Inl e \<Rightarrow> False
    | Inr br \<Rightarrow> map (\<lambda>r. map_option fwhm_arcsec (metrics r)) (results br)
               = [Some None, Some (Some (471 / 100 * (82506 / 100000)))])
   \<and> (case analyze_files batch_world two_workers [plain_file, scaled_file] True of
      Inl e \<Rightarrow> False
    | Inr br \<Rightarrow> map (\<lambda>r. map_option fwhm_arcsec (metrics r)) (results br)
               = [Some None, Some None])"
proof -
  have g: "get_imaging_params batch_world (path plain_file)
     = Inr \<lparr>pixel_size_um = None, focal_length_mm = None, aperture_mm = None, image_scale = None\<rparr>"
    by (simp add: plain_file_def gip_plain)
  show ?thesis
    by (simp add: analyze_files_def g two_workers_fields Let_def mixed_headers_eval
        del: analyze_sequential.simps)
qed

text \<open>
  C1, at an input where the code departs from it. When the first file of a batch cannot
  be opened, \<open>analyze_files\<close> raises the exception of \<^verbatim>\<open>get_imaging_params\<close>,
  sequentially and in parallel, and returns no result for any file. The same file in
  second place is contained: the batch returns, with the message in the \<^verbatim>\<open>error\<close> of
  that file.
\<close>

theorem first_file_failure_aborts_batch:
  "analyze_files batch_world two_workers [corrupt_file, scaled_file] False
     = Inl (Raise OSError ''Empty or corrupt FITS file'')
   \<and> analyze_files batch_world two_workers [corrupt_file, scaled_file] True
     = Inl (Raise OSError ''Empty or corrupt FITS file'')
   \<and> (case analyze_files batch_world two_workers [scaled_file, corrupt_file] False of
        Inl e \<Rightarrow> False
      | Inr br \<Rightarrow> map error (results br) = [None, Some ''Empty or corrupt FITS file''])"
proof -
  have "analyze_files batch_world two_workers [corrupt_file, scaled_file] p
     = Inl (Raise OSError ''Empty or corrupt FITS file'')" for p
    by (simp add: analyze_files_def gip_corrupt corrupt_file_def)
  moreover have
    "(case analyze_files batch_world two_workers [scaled_file, corrupt_file] False of
        Inl e \<Rightarrow> False
      | Inr br \<Rightarrow> map error (results br) = [None, Some ''Empty or corrupt FITS file''])"
    by (simp add: analyze_files_def gip_scaled Let_def scaled_file_def corrupt_file_def
        analyze_file_def load_batch detector_two_workers detect_blank fit_blank
        del: fit_psf.simps)
  ultimately show ?thesis by simp
qed

end
